theory Spec2Isabelle
  imports Complex_Main "HOL-Library.Sublist" "HOL-Library.AList"
begin

section \<open>Data model of the geometric engine\<close>

text \<open>
  The engine of \<^verbatim>\<open>Aetherwear_core/__init__.py\<close> is a chain of six layers over Python
  dictionaries, lists and floats. Dictionaries keep insertion order, so they are association
  lists with distinct keys: a lookup is \<open>map_of\<close>, an assignment \<open>d[k] = v\<close> is
  \<open>AList.update\<close> (an existing key keeps its position, a new key goes to the end).
  Floats are modelled by exact reals. Text is a list of 8-bit characters (the code points
  below 256).
\<close>

datatype error = ValueError | AttributeError string

type_synonym ('k, 'v) dict = "('k \<times> 'v) list"

definition dict_get :: "('k, 'v) dict \<Rightarrow> 'k \<Rightarrow> 'v \<Rightarrow> 'v" where
  \<comment> \<open>\<^verbatim>\<open>d.get(k, default)\<close>\<close>
  "dict_get d k dflt = (case map_of d k of None \<Rightarrow> dflt | Some v \<Rightarrow> v)"

text \<open>
  The dataclass \<^verbatim>\<open>GeometricResult\<close>; its fields carry the prefix \<open>result_\<close> here, to keep
  them apart from the keys of the dictionaries below.
\<close>

record GeometricResult =
  result_analysis_id :: string
  result_query :: string
  result_domain :: string
  result_final_decision :: string
  result_confidence :: real
  result_risks :: "string list"
  result_recommendations :: "string list"
  result_geometric_balance :: "(string, real) dict"
  result_processing_time :: real

record network =
  nodes :: "(string, real) dict"
  connections :: "(string \<times> string, real) dict"
  central_patterns :: "string list"
  network_density :: real

record blueprint =
  strategy :: string
  focus_patterns :: "string list"
  approach :: string
  key_actions :: "string list"
  expected_outcome :: string
  risk_level :: string

record evaluated_solution =
  solution :: blueprint
  scores :: "(string, real) dict"
  overall_score :: real
  risks :: "string list"
  recommendations :: "string list"

text \<open>
  The dictionary that \<^verbatim>\<open>_apply_domain_knowledge\<close> and \<^verbatim>\<open>_conscious_field_layer\<close>
  return: the final decision of an analysis.
\<close>

record wisdom =
  final_decision :: string
  confidence :: real
  risks :: "string list"
  recommendations :: "string list"
  geometric_balance :: "(string, real) dict"

section \<open>Text helpers\<close>

definition lower_char :: "char \<Rightarrow> char" where
  \<comment> \<open>\<^verbatim>\<open>str.lower\<close> on one code point below 256: A-Z and the accented capitals.\<close>
  "lower_char c =
     (let n = (of_char c :: nat)
      in if (65 \<le> n \<and> n \<le> 90) \<or> (192 \<le> n \<and> n \<le> 222 \<and> n \<noteq> 215)
         then (case c of Char b0 b1 b2 b3 b4 b5 b6 b7 \<Rightarrow> Char b0 b1 b2 b3 b4 True b6 b7)
         else c)"

definition str_lower :: "string \<Rightarrow> string" where
  "str_lower s = map lower_char s"

fun str_contains :: "string \<Rightarrow> string \<Rightarrow> bool" where
  \<comment> \<open>\<^verbatim>\<open>needle in text\<close>\<close>
  "str_contains [] needle = (needle = [])"
| "str_contains (c # cs) needle = (prefix needle (c # cs) \<or> str_contains cs needle)"

fun str_join :: "string \<Rightarrow> string list \<Rightarrow> string" where
  \<comment> \<open>\<^verbatim>\<open>sep.join(parts)\<close>\<close>
  "str_join sep [] = []"
| "str_join sep [x] = x"
| "str_join sep (x # y # ys) = x @ sep @ str_join sep (y # ys)"

fun digits_of_nat :: "nat \<Rightarrow> nat \<Rightarrow> string" where
  \<comment> \<open>the last decimal digits of \<open>n\<close>, at most \<open>fuel\<close> of them\<close>
  "digits_of_nat 0 n = []"
| "digits_of_nat (Suc fuel) n =
     (if n < 10 then [char_of (48 + n)]
      else digits_of_nat fuel (n div 10) @ [char_of (48 + n mod 10)])"

definition str_of_int :: "int \<Rightarrow> string" where
  \<comment> \<open>\<^verbatim>\<open>str(i)\<close>: \<open>n\<close> has at most \<open>n + 1\<close> digits\<close>
  "str_of_int i =
     (if i < 0 then CHR ''-'' # digits_of_nat (Suc (nat (- i))) (nat (- i))
      else digits_of_nat (Suc (nat i)) (nat i))"

section \<open>Layer 0: themes and insights\<close>

definition theme_keywords :: "(string, string list) dict" where
  "theme_keywords =
    [(''profit'', [''profit'', ''revenue'', ''income'', ''money'']),
     (''growth'', [''grow'', ''expand'', ''scale'', ''increase'']),
     (''cost'', [''cost'', ''save'', ''cut'', ''reduce'', ''efficient'']),
     (''risk'', [''risk'', ''danger'', ''problem'', ''issue'']),
     (''opportunity'', [''opportunity'', ''potential'', ''possibility''])]"

definition extract_themes :: "string \<Rightarrow> string list" where
  "extract_themes query =
     (let query_lower = str_lower query;
          themes = map fst (filter (\<lambda>(theme, keywords).
                     list_ex (\<lambda>keyword. str_contains query_lower keyword) keywords)
                     theme_keywords)
      in if themes \<noteq> [] then themes else [''general''])"

definition insight_table :: "(string, string) dict" where
  "insight_table =
    [(''profit'', ''Financial outcomes should balance short-term gains with long-term sustainability''),
     (''growth'', ''Sustainable growth requires solid foundations and careful planning''),
     (''cost'', ''Cost optimization should not compromise quality or future capabilities''),
     (''risk'', ''Risk management is essential but should not stifle innovation''),
     (''opportunity'', ''New opportunities should align with core strengths and values'')]"

definition generate_insight :: "string \<Rightarrow> 'c \<Rightarrow> string" where
  "generate_insight theme context =
     dict_get insight_table theme ''Consider multiple perspectives and long-term impacts''"

definition vesica_piscis_layer :: "string \<Rightarrow> 'c \<Rightarrow> string list" where
  \<comment> \<open>an insight is kept when it is truthy, that is, not the empty text\<close>
  "vesica_piscis_layer query context =
     filter (\<lambda>insight. insight \<noteq> [])
       (map (\<lambda>theme. generate_insight theme context) (extract_themes query))"

section \<open>Layer 1: pattern strengths\<close>

definition pattern_indicators :: "(string, string list) dict" where
  "pattern_indicators =
    [(''growth_expansion'', [''grow'', ''expand'', ''increase'', ''scale'', ''more'']),
     (''stability_structure'', [''stable'', ''secure'', ''foundation'', ''reliable'']),
     (''connection_relationship'', [''connect'', ''relationship'', ''partner'', ''collaborate'']),
     (''innovation_creativity'', [''innovate'', ''create'', ''new'', ''invent'', ''breakthrough'']),
     (''efficiency_optimization'', [''efficient'', ''optimize'', ''streamline'', ''improve'']),
     (''risk_challenge'', [''risk'', ''problem'', ''challenge'', ''threat'', ''danger'']),
     (''opportunity_potential'', [''opportunity'', ''potential'', ''possibility'', ''future''])]"

definition calculate_pattern_strength :: "string \<Rightarrow> string \<Rightarrow> real" where
  "calculate_pattern_strength insight pattern =
     (let indicators = dict_get pattern_indicators pattern [];
          matches = length (filter (\<lambda>indicator. str_contains (str_lower insight) indicator)
                      indicators)
      in min (real matches / real (max (length indicators) 1)) 1)"

definition initial_patterns :: "(string, real) dict" where
  "initial_patterns =
    [(''growth_expansion'', 0), (''stability_structure'', 0), (''connection_relationship'', 0),
     (''innovation_creativity'', 0), (''efficiency_optimization'', 0), (''risk_challenge'', 0),
     (''opportunity_potential'', 0)]"

definition seed_pattern_step :: "string \<Rightarrow> string \<Rightarrow> (string, real) dict \<Rightarrow> (string, real) dict" where
  \<comment> \<open>\<^verbatim>\<open>patterns[pattern] = max(patterns[pattern], pattern_strength)\<close>;
      the key comes from the dictionary itself, so the lookup cannot miss\<close>
  "seed_pattern_step insight pattern patterns =
     AList.update pattern
       (max (dict_get patterns pattern 0) (calculate_pattern_strength insight pattern)) patterns"

definition seed_insight_step :: "string \<Rightarrow> (string, real) dict \<Rightarrow> (string, real) dict" where
  "seed_insight_step insight patterns =
     fold (seed_pattern_step insight) (map fst patterns) patterns"

definition seed_of_life_layer :: "string list \<Rightarrow> (string, real) dict" where
  "seed_of_life_layer insights = fold seed_insight_step insights initial_patterns"

section \<open>Layer 2: the pattern network\<close>

definition complementary_pairs :: "(string \<times> string) list" where
  "complementary_pairs =
    [(''growth_expansion'', ''stability_structure''),
     (''innovation_creativity'', ''efficiency_optimization''),
     (''risk_challenge'', ''opportunity_potential'')]"

definition calculate_connection_strength :: "string \<Rightarrow> string \<Rightarrow> (string, real) dict \<Rightarrow> real" where
  "calculate_connection_strength pattern_a pattern_b patterns =
     (let base_strength =
            (if (pattern_a, pattern_b) \<in> set complementary_pairs
                \<or> (pattern_b, pattern_a) \<in> set complementary_pairs
             then 0.8 else 0.3);
          strength_a = dict_get patterns pattern_a 0;
          strength_b = dict_get patterns pattern_b 0
      in base_strength * (strength_a + strength_b) / 2)"

definition find_central_patterns ::
  "(string, real) dict \<Rightarrow> (string \<times> string, real) dict \<Rightarrow> string list" where
  \<comment> \<open>\<^verbatim>\<open>sorted(..., reverse=True)\<close> is stable: equal strengths keep the dictionary's order\<close>
  "find_central_patterns patterns conns =
     map fst (take 3 (sort_key (\<lambda>x. - snd x) patterns))"

definition calculate_network_density :: "(string \<times> string, real) dict \<Rightarrow> real" where
  "calculate_network_density conns =
     (if conns = [] then 0 else sum_list (map snd conns) / real (length conns))"

definition connect_step ::
  "(string, real) dict \<Rightarrow> nat \<times> string \<Rightarrow> nat \<times> string \<Rightarrow>
   (string \<times> string, real) dict \<Rightarrow> (string \<times> string, real) dict" where
  "connect_step patterns ia jb conns =
     (if fst ia \<noteq> fst jb
      then AList.update (snd ia, snd jb)
             (calculate_connection_strength (snd ia) (snd jb) patterns) conns
      else conns)"

definition build_connections :: "(string, real) dict \<Rightarrow> (string \<times> string, real) dict" where
  \<comment> \<open>the two nested loops over \<^verbatim>\<open>enumerate(pattern_names)\<close>\<close>
  "build_connections patterns =
     (let pattern_names = map fst patterns
      in fold (\<lambda>ia conns. fold (connect_step patterns ia) (enumerate 0 pattern_names) conns)
           (enumerate 0 pattern_names) [])"

definition flower_of_life_layer :: "(string, real) dict \<Rightarrow> network" where
  "flower_of_life_layer patterns =
     (let conns = build_connections patterns
      in \<lparr>nodes = patterns, connections = conns,
          central_patterns = find_central_patterns patterns conns,
          network_density = calculate_network_density conns\<rparr>)"

section \<open>Layer 3: blueprints\<close>

text \<open>
  \<^verbatim>\<open>list(set(actions))\<close> lists the distinct actions in the iteration order of a hash set,
  which the language does not fix (string hashes are salted per process). The order is a
  parameter \<open>order\<close> of the model; \<open>set_iteration order\<close> says that it is such a listing:
  each element once, nothing added, nothing lost.
\<close>

definition set_iteration :: "(string list \<Rightarrow> string list) \<Rightarrow> bool" where
  "set_iteration order = (\<forall>xs. distinct (order xs) \<and> set (order xs) = set xs)"

definition strategy_types :: "string list" where
  "strategy_types = [''aggressive'', ''balanced'', ''conservative'', ''innovative'', ''efficient'']"

definition approaches :: "(string, string) dict" where
  "approaches =
    [(''aggressive'', ''Rapid implementation with high potential returns''),
     (''balanced'', ''Measured approach considering multiple factors''),
     (''conservative'', ''Cautious implementation minimizing risks''),
     (''innovative'', ''Creative solutions exploring new possibilities''),
     (''efficient'', ''Optimized approach maximizing resource usage'')]"

definition get_strategy_approach :: "string \<Rightarrow> string" where
  "get_strategy_approach strat = dict_get approaches strat ''Balanced approach''"

definition base_actions :: "(string, string list) dict" where
  "base_actions =
    [(''aggressive'', [''Implement quickly'', ''Allocate maximum resources'', ''Set ambitious targets'']),
     (''balanced'', [''Plan carefully'', ''Balance resources'', ''Set realistic targets'']),
     (''conservative'', [''Test thoroughly'', ''Allocate minimal resources'', ''Set cautious targets'']),
     (''innovative'', [''Explore new methods'', ''Encourage creativity'', ''Accept calculated risks'']),
     (''efficient'', [''Optimize processes'', ''Measure everything'', ''Eliminate waste''])]"

definition pattern_actions :: "(string, string list) dict" where
  "pattern_actions =
    [(''growth_expansion'', [''Focus on market expansion'', ''Increase capacity'']),
     (''stability_structure'', [''Strengthen foundations'', ''Build resilience'']),
     (''innovation_creativity'', [''Invest in R&D'', ''Encourage innovation''])]"

definition extend_actions :: "string list \<Rightarrow> string \<Rightarrow> string list" where
  \<comment> \<open>\<^verbatim>\<open>if pattern in pattern_actions: actions.extend(pattern_actions[pattern])\<close>\<close>
  "extend_actions actions pattern =
     (case map_of pattern_actions pattern of
        Some extra \<Rightarrow> actions @ extra
      | None \<Rightarrow> actions)"

definition generate_actions ::
  "(string list \<Rightarrow> string list) \<Rightarrow> string \<Rightarrow> string list \<Rightarrow> string list" where
  "generate_actions order strat patterns =
     (let actions = foldl extend_actions (dict_get base_actions strat []) patterns
      in take 5 (order actions))"

definition generate_blueprint ::
  "(string list \<Rightarrow> string list) \<Rightarrow> string \<Rightarrow> network \<Rightarrow> string \<Rightarrow> blueprint" where
  "generate_blueprint order strat net query =
     (let central = central_patterns net
      in \<lparr>strategy = strat,
          focus_patterns = take 2 central,
          approach = get_strategy_approach strat,
          key_actions = generate_actions order strat central,
          expected_outcome = ''Balanced approach focusing on '' @ str_join '', '' (take 2 central),
          risk_level = (if strat = ''balanced'' then ''medium''
                        else if strat = ''aggressive'' then ''high'' else ''low'')\<rparr>)"

definition fruit_of_life_layer ::
  "(string list \<Rightarrow> string list) \<Rightarrow> network \<Rightarrow> string \<Rightarrow> blueprint list" where
  \<comment> \<open>a blueprint is a dictionary of six keys, hence truthy, and always appended\<close>
  "fruit_of_life_layer order net query =
     map (\<lambda>strat. generate_blueprint order strat net query) strategy_types"

section \<open>Layer 4: evaluation and selection\<close>

definition evaluate_action_focus :: "blueprint \<Rightarrow> real" where
  "evaluate_action_focus sol =
     (if strategy sol = ''aggressive'' then 0.9
      else if strategy sol = ''balanced'' then 0.7
      else 0.5)"

definition evaluate_stability :: "blueprint \<Rightarrow> real" where
  "evaluate_stability sol =
     (if risk_level sol = ''low'' then 0.9
      else if risk_level sol = ''medium'' then 0.7
      else 0.4)"

definition evaluate_clarity :: "blueprint \<Rightarrow> real" where
  "evaluate_clarity sol = min (real (length (key_actions sol)) * 0.2) 1"

definition evaluate_adaptability :: "blueprint \<Rightarrow> real" where
  "evaluate_adaptability sol =
     (if strategy sol \<in> set [''balanced'', ''innovative''] then 0.8 else 0.5)"

definition evaluate_purpose :: "blueprint \<Rightarrow> real" where
  "evaluate_purpose sol =
     (if ''opportunity_potential'' \<in> set (focus_patterns sol)
         \<or> ''innovation_creativity'' \<in> set (focus_patterns sol)
      then 0.9 else 0.6)"

definition identify_risks :: "(string, real) dict \<Rightarrow> string list" where
  "identify_risks sc =
     (let found =
            (if dict_get sc ''action_focus'' 0 < 0.3 then [''Lacks clear action plan''] else [])
          @ (if dict_get sc ''stability_foundation'' 0 < 0.3 then [''High instability risk''] else [])
          @ (if dict_get sc ''clarity_logic'' 0 < 0.3 then [''Unclear implementation path''] else [])
          @ (if dict_get sc ''adaptability_empathy'' 0 < 0.3 then [''Inflexible to changes''] else [])
          @ (if dict_get sc ''purpose_potential'' 0 < 0.3 then [''Limited long-term potential''] else [])
      in if found \<noteq> [] then found else [''Low to moderate risks identified''])"

definition generate_recommendations :: "(string, real) dict \<Rightarrow> string list" where
  "generate_recommendations sc =
     (let found =
            (if dict_get sc ''action_focus'' 0 < 0.7 then [''Define clearer action steps''] else [])
          @ (if dict_get sc ''stability_foundation'' 0 < 0.7
             then [''Strengthen foundational elements''] else [])
          @ (if dict_get sc ''clarity_logic'' 0 < 0.7
             then [''Improve plan clarity and logic''] else [])
          @ (if dict_get sc ''adaptability_empathy'' 0 < 0.7
             then [''Increase flexibility and consideration of impacts''] else [])
          @ (if dict_get sc ''purpose_potential'' 0 < 0.7
             then [''Enhance long-term strategic alignment''] else [])
      in if found \<noteq> [] then found else [''Well-balanced approach''])"

definition evaluate_solution :: "blueprint \<Rightarrow> evaluated_solution" where
  \<comment> \<open>the body of the loop of \<^verbatim>\<open>_metatrons_cube_layer\<close>\<close>
  "evaluate_solution sol =
     (let sc = [(''action_focus'', evaluate_action_focus sol),
                (''stability_foundation'', evaluate_stability sol),
                (''clarity_logic'', evaluate_clarity sol),
                (''adaptability_empathy'', evaluate_adaptability sol),
                (''purpose_potential'', evaluate_purpose sol)]
      in \<lparr>solution = sol, scores = sc,
          overall_score = sum_list (map snd sc) / real (length sc),
          evaluated_solution.risks = identify_risks sc,
          evaluated_solution.recommendations = generate_recommendations sc\<rparr>)"

fun max_from :: "('a \<Rightarrow> real) \<Rightarrow> 'a \<Rightarrow> 'a list \<Rightarrow> 'a" where
  \<comment> \<open>the loop of the builtin \<^verbatim>\<open>max\<close>: a later item replaces the running maximum only
      when its key is strictly greater\<close>
  "max_from key best [] = best"
| "max_from key best (x # xs) = max_from key (if key x > key best then x else best) xs"

definition py_max :: "('a \<Rightarrow> real) \<Rightarrow> 'a list \<Rightarrow> error + 'a" where
  \<comment> \<open>\<^verbatim>\<open>max(items, key=key)\<close>; an empty sequence raises \<^verbatim>\<open>ValueError\<close>\<close>
  "py_max key xs = (case xs of [] \<Rightarrow> Inl ValueError | x # rest \<Rightarrow> Inr (max_from key x rest))"

definition metatrons_cube_layer :: "blueprint list \<Rightarrow> error + evaluated_solution" where
  "metatrons_cube_layer solutions =
     (let evaluated_solutions = map evaluate_solution solutions
      in py_max overall_score evaluated_solutions)"

section \<open>Layer 5: the final decision\<close>

definition apply_domain_knowledge :: "string \<Rightarrow> evaluated_solution \<Rightarrow> wisdom" where
  "apply_domain_knowledge domain decision =
     (let domain_insights =
            [(''business'', ''Business strategy: '' @ expected_outcome (solution decision)),
             (''personal'', ''Personal decision: Consider life balance and long-term happiness''),
             (''ecological'', ''Ecological approach: Prioritize sustainability and system health'')];
          domain_info = dict_get domain_insights domain
                          (''Business strategy: '' @ expected_outcome (solution decision))
      in \<lparr>final_decision = domain_info,
          confidence = overall_score decision,
          risks = evaluated_solution.risks decision,
          recommendations = evaluated_solution.recommendations decision,
          geometric_balance = scores decision\<rparr>)"

definition learn_from_analysis :: "string \<Rightarrow> evaluated_solution \<Rightarrow> string \<Rightarrow> string" where
  \<comment> \<open>the message handed to the logger; nothing is returned to the caller\<close>
  "learn_from_analysis query decision domain =
     ''Learned from '' @ domain @ '' analysis: '' @ take 50 query @ ''...''"

definition conscious_field_layer :: "evaluated_solution \<Rightarrow> string \<Rightarrow> string \<Rightarrow> wisdom" where
  "conscious_field_layer decision query domain =
     (let domain_wisdom = apply_domain_knowledge domain decision
      in \<lparr>final_decision = final_decision domain_wisdom,
          confidence = overall_score decision,
          risks = evaluated_solution.risks decision,
          recommendations = evaluated_solution.recommendations decision,
          geometric_balance = scores decision\<rparr>)"

section \<open>The engine\<close>

definition process_network :: "string \<Rightarrow> 'c \<Rightarrow> network" where
  \<comment> \<open>layers 0 to 2 of \<^verbatim>\<open>process\<close>: the value bound to \<^verbatim>\<open>network\<close>\<close>
  "process_network query context =
     (let insights = vesica_piscis_layer query context;
          patterns = seed_of_life_layer insights
      in flower_of_life_layer patterns)"

definition process_solutions ::
  "(string list \<Rightarrow> string list) \<Rightarrow> string \<Rightarrow> 'c \<Rightarrow> blueprint list" where
  \<comment> \<open>layer 3: the value bound to \<^verbatim>\<open>solutions\<close>\<close>
  "process_solutions order query context =
     fruit_of_life_layer order (process_network query context) query"

definition process_decision ::
  "(string list \<Rightarrow> string list) \<Rightarrow> string \<Rightarrow> 'c \<Rightarrow> error + evaluated_solution" where
  \<comment> \<open>layer 4: the value bound to \<^verbatim>\<open>decision\<close>\<close>
  "process_decision order query context =
     metatrons_cube_layer (process_solutions order query context)"

definition process_wisdom ::
  "(string list \<Rightarrow> string list) \<Rightarrow> string \<Rightarrow> string \<Rightarrow> 'c \<Rightarrow> error + wisdom" where
  \<comment> \<open>layer 5: the value bound to \<^verbatim>\<open>wisdom\<close>, the final decision of the analysis\<close>
  "process_wisdom order query domain context =
     (case process_decision order query context of
        Inl e \<Rightarrow> Inl e
      | Inr decision \<Rightarrow> Inr (conscious_field_layer decision query domain))"

definition dict_getattr :: "wisdom \<Rightarrow> string \<Rightarrow> error + 'a" where
  \<comment> \<open>\<^verbatim>\<open>d.name\<close> on a dictionary: its keys are not attributes, the read raises\<close>
  "dict_getattr d name = Inl (AttributeError name)"

definition process ::
  "(string list \<Rightarrow> string list) \<Rightarrow> string \<Rightarrow> string \<Rightarrow> 'c \<Rightarrow> real \<Rightarrow> real \<Rightarrow>
   error + GeometricResult" where
  \<comment> \<open>\<open>start_time\<close> and \<open>end_time\<close> are the two readings of the event loop's clock\<close>
  "process order query domain context start_time end_time =
     (case process_wisdom order query domain context of
        Inl e \<Rightarrow> Inl e
      | Inr wisdom \<Rightarrow>
     (case dict_getattr wisdom ''final_decision'' of Inl e \<Rightarrow> Inl e | Inr v_decision \<Rightarrow>
     (case dict_getattr wisdom ''confidence'' of Inl e \<Rightarrow> Inl e | Inr v_confidence \<Rightarrow>
     (case dict_getattr wisdom ''risks'' of Inl e \<Rightarrow> Inl e | Inr v_risks \<Rightarrow>
     (case dict_getattr wisdom ''recommendations'' of Inl e \<Rightarrow> Inl e | Inr v_recs \<Rightarrow>
     (case dict_getattr wisdom ''geometric_balance'' of Inl e \<Rightarrow> Inl e | Inr v_balance \<Rightarrow>
        Inr \<lparr>result_analysis_id = ''geo_'' @ str_of_int (if start_time < 0 then \<lceil>start_time\<rceil> else \<lfloor>start_time\<rfloor>),
             result_query = query,
             result_domain = domain,
             result_final_decision = v_decision,
             result_confidence = v_confidence,
             result_risks = v_risks,
             result_recommendations = v_recs,
             result_geometric_balance = v_balance,
             result_processing_time = end_time - start_time\<rparr>))))))"

section \<open>Selection and evaluation: basic facts\<close>

lemma max_from_mem: "max_from key b xs \<in> set (b # xs)"
  by (induction xs arbitrary: b) auto

lemma fruit_of_life_layer_unfold:
  "fruit_of_life_layer order net query =
     [generate_blueprint order ''aggressive'' net query,
      generate_blueprint order ''balanced'' net query,
      generate_blueprint order ''conservative'' net query,
      generate_blueprint order ''innovative'' net query,
      generate_blueprint order ''efficient'' net query]"
  by (simp add: fruit_of_life_layer_def strategy_types_def)

lemma metatrons_cube_layer_some:
  assumes "solutions \<noteq> []"
  shows "\<exists>sol \<in> set solutions. metatrons_cube_layer solutions = Inr (evaluate_solution sol)"
proof -
  from assms obtain b rest where s: "solutions = b # rest" by (cases solutions) auto
  have "max_from overall_score (evaluate_solution b) (map evaluate_solution rest)
          \<in> evaluate_solution ` set solutions"
    using max_from_mem [of overall_score "evaluate_solution b" "map evaluate_solution rest"]
    unfolding s by auto
  then show ?thesis
    unfolding s by (auto simp: metatrons_cube_layer_def py_max_def)
qed

lemma process_decision_some:
  "\<exists>sol \<in> set (process_solutions order query context).
      process_decision order query context = Inr (evaluate_solution sol)"
  unfolding process_decision_def
  by (rule metatrons_cube_layer_some) (simp add: process_solutions_def fruit_of_life_layer_unfold)

lemma scores_evaluate_solution:
  "scores (evaluate_solution sol) =
     [(''action_focus'', evaluate_action_focus sol),
      (''stability_foundation'', evaluate_stability sol),
      (''clarity_logic'', evaluate_clarity sol),
      (''adaptability_empathy'', evaluate_adaptability sol),
      (''purpose_potential'', evaluate_purpose sol)]"
  by (simp add: evaluate_solution_def Let_def)

lemma overall_score_evaluate_solution:
  "overall_score (evaluate_solution sol) =
     (evaluate_action_focus sol + evaluate_stability sol + evaluate_clarity sol
        + evaluate_adaptability sol + evaluate_purpose sol) / 5"
  by (simp add: evaluate_solution_def Let_def)

lemma solution_evaluate_solution: "solution (evaluate_solution sol) = sol"
  by (simp add: evaluate_solution_def Let_def)

text \<open>
  Claim C1. For every query, domain and context, the confidence of the final decision is the
  arithmetic mean of the five values of its geometric balance, whose keys are the five
  dimensions in their fixed order. The statement is about the dictionary bound to
  \<^verbatim>\<open>wisdom\<close> in \<^verbatim>\<open>process\<close>; it holds for every iteration order of the set.
\<close>

theorem confidence_is_mean_of_balance:
  "\<exists>w. process_wisdom order query domain context = Inr w
     \<and> map fst (geometric_balance w) =
         [''action_focus'', ''stability_foundation'', ''clarity_logic'',
          ''adaptability_empathy'', ''purpose_potential'']
     \<and> confidence w = sum_list (map snd (geometric_balance w)) / 5
     \<and> confidence w =
         (dict_get (geometric_balance w) ''action_focus'' 0
          + dict_get (geometric_balance w) ''stability_foundation'' 0
          + dict_get (geometric_balance w) ''clarity_logic'' 0
          + dict_get (geometric_balance w) ''adaptability_empathy'' 0
          + dict_get (geometric_balance w) ''purpose_potential'' 0) / 5"
proof -
  from process_decision_some [of order query "context"] obtain sol
    where d: "process_decision order query context = Inr (evaluate_solution sol)" by blast
  have w: "process_wisdom order query domain context
             = Inr (conscious_field_layer (evaluate_solution sol) query domain)"
    by (simp add: process_wisdom_def d)
  show ?thesis
    unfolding w
    by (simp add: conscious_field_layer_def scores_evaluate_solution
          overall_score_evaluate_solution dict_get_def)
qed


lemma max_from_first:
  "\<exists>i < length (b # xs). max_from key b xs = (b # xs) ! i
      \<and> (\<forall>j < length (b # xs). key ((b # xs) ! j) \<le> key ((b # xs) ! i))
      \<and> (\<forall>j < i. key ((b # xs) ! j) < key ((b # xs) ! i))"
proof (induction xs arbitrary: b)
  case Nil
  show ?case by simp
next
  case (Cons x xs)
  define b' where "b' = (if key x > key b then x else b)"
  have kb: "key b \<le> key b'" and kx: "key x \<le> key b'"
    by (simp_all add: b'_def)
  from Cons.IH [of b'] obtain i where i: "i < length (b' # xs)"
    and r: "max_from key b' xs = (b' # xs) ! i"
    and le: "\<forall>j < length (b' # xs). key ((b' # xs) ! j) \<le> key ((b' # xs) ! i)"
    and lt: "\<forall>j < i. key ((b' # xs) ! j) < key ((b' # xs) ! i)"
    by blast
  have step: "max_from key b (x # xs) = max_from key b' xs"
    by (simp add: b'_def)
  show ?case
  proof (cases i)
    case 0
    with r have res: "max_from key b (x # xs) = b'" using step by simp
    have all: "\<forall>j < length (b # x # xs). key ((b # x # xs) ! j) \<le> key b'"
    proof (intro allI impI)
      fix j assume j: "j < length (b # x # xs)"
      show "key ((b # x # xs) ! j) \<le> key b'"
      proof (cases j)
        case 0 then show ?thesis using kb by simp
      next
        case (Suc k)
        show ?thesis
        proof (cases k)
          case 0 then show ?thesis using Suc kx by simp
        next
          case (Suc m)
          with \<open>j = Suc k\<close> j have "Suc m < length (b' # xs)" by simp
          with le 0 have "key ((b' # xs) ! Suc m) \<le> key b'" by fastforce
          then show ?thesis using Suc \<open>j = Suc k\<close> by simp
        qed
      qed
    qed
    show ?thesis
    proof (cases "key x > key b")
      case True
      then have "b' = x" by (simp add: b'_def)
      have a: "(1::nat) < length (b # x # xs)" by simp
      have b: "max_from key b (x # xs) = (b # x # xs) ! 1" using res \<open>b' = x\<close> by simp
      have c: "\<forall>j < length (b # x # xs). key ((b # x # xs) ! j) \<le> key ((b # x # xs) ! 1)"
        using all \<open>b' = x\<close> by simp
      have d: "\<forall>j < 1. key ((b # x # xs) ! j) < key ((b # x # xs) ! 1)"
        using True by simp
      from a b c d show ?thesis by blast
    next
      case False
      then have "b' = b" by (simp add: b'_def)
      have a: "(0::nat) < length (b # x # xs)" by simp
      have b: "max_from key b (x # xs) = (b # x # xs) ! 0" using res \<open>b' = b\<close> by simp
      have c: "\<forall>j < length (b # x # xs). key ((b # x # xs) ! j) \<le> key ((b # x # xs) ! 0)"
        using all \<open>b' = b\<close> by simp
      have d: "\<forall>j < 0. key ((b # x # xs) ! j) < key ((b # x # xs) ! 0)"
        by simp
      from a b c d show ?thesis by blast
    qed
  next
    case (Suc k)
    with i have k: "k < length xs" by simp
    from r Suc have res: "max_from key b (x # xs) = xs ! k" using step by simp
    have top: "key b' < key (xs ! k)" using lt Suc by fastforce
    have all: "\<forall>j < length (b # x # xs). key ((b # x # xs) ! j) \<le> key (xs ! k)"
    proof (intro allI impI)
      fix j assume j: "j < length (b # x # xs)"
      show "key ((b # x # xs) ! j) \<le> key (xs ! k)"
      proof (cases j)
        case 0 then show ?thesis using kb top by simp
      next
        case (Suc m)
        show ?thesis
        proof (cases m)
          case 0 then show ?thesis using Suc kx top by simp
        next
          case (Suc n)
          with \<open>j = Suc m\<close> j have "Suc n < length (b' # xs)" by simp
          with le \<open>i = Suc k\<close> have "key ((b' # xs) ! Suc n) \<le> key ((b' # xs) ! Suc k)" by blast
          then show ?thesis using Suc \<open>j = Suc m\<close> by simp
        qed
      qed
    qed
    have below: "\<forall>j < Suc (Suc k). key ((b # x # xs) ! j) < key (xs ! k)"
    proof (intro allI impI)
      fix j assume j: "j < Suc (Suc k)"
      show "key ((b # x # xs) ! j) < key (xs ! k)"
      proof (cases j)
        case 0 then show ?thesis using kb top by simp
      next
        case (Suc m)
        show ?thesis
        proof (cases m)
          case 0 then show ?thesis using Suc kx top by simp
        next
          case (Suc n)
          with \<open>j = Suc m\<close> j have "Suc n < i" using \<open>i = Suc k\<close> by simp
          with lt have "key ((b' # xs) ! Suc n) < key ((b' # xs) ! i)" by blast
          then show ?thesis using Suc \<open>j = Suc m\<close> \<open>i = Suc k\<close> by simp
        qed
      qed
    qed
    have a: "Suc (Suc k) < length (b # x # xs)" using k by simp
    have b: "max_from key b (x # xs) = (b # x # xs) ! Suc (Suc k)" using res by simp
    have c: "\<forall>j < length (b # x # xs).
               key ((b # x # xs) ! j) \<le> key ((b # x # xs) ! Suc (Suc k))"
      using all by simp
    have d: "\<forall>j < Suc (Suc k). key ((b # x # xs) ! j) < key ((b # x # xs) ! Suc (Suc k))"
      using below by simp
    from a b c d show ?thesis by blast
  qed
qed

lemma py_max_first:
  assumes "xs \<noteq> []"
  shows "\<exists>i < length xs. py_max key xs = Inr (xs ! i)
      \<and> (\<forall>j < length xs. key (xs ! j) \<le> key (xs ! i))
      \<and> (\<forall>j < i. key (xs ! j) < key (xs ! i))"
proof -
  from assms obtain b rest where xs: "xs = b # rest" by (cases xs) auto
  from max_from_first [of b rest key] show ?thesis
    unfolding xs py_max_def by simp
qed


lemma py_max_eq_first:
  assumes i: "i < length xs"
    and le: "\<forall>j < length xs. key (xs ! j) \<le> key (xs ! i)"
    and lt: "\<forall>j < i. key (xs ! j) < key (xs ! i)"
  shows "py_max key xs = Inr (xs ! i)"
proof -
  from i have "xs \<noteq> []" by auto
  from py_max_first [OF this, of key] obtain k where k: "k < length xs"
    and r: "py_max key xs = Inr (xs ! k)"
    and le': "\<forall>j < length xs. key (xs ! j) \<le> key (xs ! k)"
    and lt': "\<forall>j < k. key (xs ! j) < key (xs ! k)"
    by blast
  have "k = i"
  proof (rule ccontr)
    assume "k \<noteq> i"
    then consider "k < i" | "i < k" by linarith
    then show False
    proof cases
      case 1
      with lt have "key (xs ! k) < key (xs ! i)" by blast
      moreover from le' i have "key (xs ! i) \<le> key (xs ! k)" by blast
      ultimately show False by simp
    next
      case 2
      with lt' have "key (xs ! i) < key (xs ! k)" by blast
      moreover from le k have "key (xs ! k) \<le> key (xs ! i)" by blast
      ultimately show False by simp
    qed
  qed
  with r show ?thesis by simp
qed


section \<open>A worked analysis: the query \<open>cost risk\<close>\<close>

lemma central_patterns_flower:
  "central_patterns (flower_of_life_layer patterns) =
     map fst (take 3 (sort_key (\<lambda>x. - snd x) patterns))"
  by (simp add: flower_of_life_layer_def find_central_patterns_def Let_def)

lemma cost_risk_themes: "extract_themes ''cost risk'' = [''cost'', ''risk'']"
  by code_simp

lemma cost_risk_patterns:
  "seed_of_life_layer
     [''Cost optimization should not compromise quality or future capabilities'',
      ''Risk management is essential but should not stifle innovation''] =
   [(''growth_expansion'', 0), (''stability_structure'', 0), (''connection_relationship'', 0),
    (''innovation_creativity'', 0), (''efficiency_optimization'', 0),
    (''risk_challenge'', 1 / 5), (''opportunity_potential'', 1 / 4)]"
  by code_simp

lemma cost_risk_central:
  "central_patterns (process_network ''cost risk'' ctx) =
     [''opportunity_potential'', ''risk_challenge'', ''growth_expansion'']"
  by (simp add: process_network_def vesica_piscis_layer_def cost_risk_themes generate_insight_def
        insight_table_def dict_get_def cost_risk_patterns central_patterns_flower)

lemma cost_risk_solutions:
  "process_solutions remdups ''cost risk'' ctx =
    [\<lparr>strategy = ''aggressive'',
      focus_patterns = [''opportunity_potential'', ''risk_challenge''],
      approach = ''Rapid implementation with high potential returns'',
      key_actions = [''Implement quickly'', ''Allocate maximum resources'',
                     ''Set ambitious targets'', ''Focus on market expansion'', ''Increase capacity''],
      expected_outcome = ''Balanced approach focusing on opportunity_potential, risk_challenge'',
      risk_level = ''high''\<rparr>,
     \<lparr>strategy = ''balanced'',
      focus_patterns = [''opportunity_potential'', ''risk_challenge''],
      approach = ''Measured approach considering multiple factors'',
      key_actions = [''Plan carefully'', ''Balance resources'',
                     ''Set realistic targets'', ''Focus on market expansion'', ''Increase capacity''],
      expected_outcome = ''Balanced approach focusing on opportunity_potential, risk_challenge'',
      risk_level = ''medium''\<rparr>,
     \<lparr>strategy = ''conservative'',
      focus_patterns = [''opportunity_potential'', ''risk_challenge''],
      approach = ''Cautious implementation minimizing risks'',
      key_actions = [''Test thoroughly'', ''Allocate minimal resources'',
                     ''Set cautious targets'', ''Focus on market expansion'', ''Increase capacity''],
      expected_outcome = ''Balanced approach focusing on opportunity_potential, risk_challenge'',
      risk_level = ''low''\<rparr>,
     \<lparr>strategy = ''innovative'',
      focus_patterns = [''opportunity_potential'', ''risk_challenge''],
      approach = ''Creative solutions exploring new possibilities'',
      key_actions = [''Explore new methods'', ''Encourage creativity'',
                     ''Accept calculated risks'', ''Focus on market expansion'', ''Increase capacity''],
      expected_outcome = ''Balanced approach focusing on opportunity_potential, risk_challenge'',
      risk_level = ''low''\<rparr>,
     \<lparr>strategy = ''efficient'',
      focus_patterns = [''opportunity_potential'', ''risk_challenge''],
      approach = ''Optimized approach maximizing resource usage'',
      key_actions = [''Optimize processes'', ''Measure everything'',
                     ''Eliminate waste'', ''Focus on market expansion'', ''Increase capacity''],
      expected_outcome = ''Balanced approach focusing on opportunity_potential, risk_challenge'',
      risk_level = ''low''\<rparr>]"
  by (simp add: process_solutions_def fruit_of_life_layer_def strategy_types_def
        generate_blueprint_def cost_risk_central generate_actions_def extend_actions_def
        base_actions_def pattern_actions_def dict_get_def get_strategy_approach_def approaches_def)

lemmas evaluate_defs =
  evaluate_action_focus_def evaluate_stability_def evaluate_clarity_def
  evaluate_adaptability_def evaluate_purpose_def

lemma cost_risk_overall:
  "map (\<lambda>sol. overall_score (evaluate_solution sol)) (process_solutions remdups ''cost risk'' ctx)
     = [0.74, 0.82, 0.76, 0.82, 0.76]"
  by (simp add: cost_risk_solutions overall_score_evaluate_solution evaluate_defs)

section \<open>Selection of the best blueprint\<close>

text \<open>
  Claim C4. The evaluator returns the evaluated blueprint at the first index whose overall
  score is maximal: whenever index \<open>i\<close> holds a score that no blueprint exceeds and that
  every earlier blueprint misses strictly, the blueprint at \<open>i\<close> is selected. The blueprints
  arrive in the enumeration order aggressive, balanced, conservative, innovative, efficient,
  so among blueprints of maximal score the earliest strategy of that order wins.
\<close>

theorem metatrons_cube_selects_first_maximum:
  assumes "i < length solutions"
    and "\<forall>j < length solutions. overall_score (evaluate_solution (solutions ! j))
            \<le> overall_score (evaluate_solution (solutions ! i))"
    and "\<forall>j < i. overall_score (evaluate_solution (solutions ! j))
            < overall_score (evaluate_solution (solutions ! i))"
  shows "metatrons_cube_layer solutions = Inr (evaluate_solution (solutions ! i))
     \<and> map strategy (fruit_of_life_layer order net query) =
         [''aggressive'', ''balanced'', ''conservative'', ''innovative'', ''efficient'']"
proof -
  have "py_max overall_score (map evaluate_solution solutions)
          = Inr (map evaluate_solution solutions ! i)"
    by (rule py_max_eq_first) (use assms in simp_all)
  with assms(1) have "metatrons_cube_layer solutions = Inr (evaluate_solution (solutions ! i))"
    by (simp add: metatrons_cube_layer_def)
  moreover have "map strategy (fruit_of_life_layer order net query) =
      [''aggressive'', ''balanced'', ''conservative'', ''innovative'', ''efficient'']"
    by (simp add: fruit_of_life_layer_def strategy_types_def generate_blueprint_def Let_def)
  ultimately show ?thesis by simp
qed

theorem metatrons_cube_selects_first_maximum_witness:
  "(1::nat) < length (process_solutions remdups ''cost risk'' ())
   \<and> map (\<lambda>sol. overall_score (evaluate_solution sol)) (process_solutions remdups ''cost risk'' ())
        = [0.74, 0.82, 0.76, 0.82, 0.76]
   \<and> map strategy (process_solutions remdups ''cost risk'' ())
        = [''aggressive'', ''balanced'', ''conservative'', ''innovative'', ''efficient'']
   \<and> metatrons_cube_layer (process_solutions remdups ''cost risk'' ())
        = Inr (evaluate_solution (process_solutions remdups ''cost risk'' () ! 1))"
proof -
  let ?s = "process_solutions remdups ''cost risk'' ()"
  let ?f = "\<lambda>sol. overall_score (evaluate_solution sol)"
  have len: "length ?s = 5" by (simp add: cost_risk_solutions)
  have a: "(1::nat) < length ?s" using len by simp
  have sc: "map ?f ?s = [0.74, 0.82, 0.76, 0.82, 0.76]"
    by (rule cost_risk_overall)
  have one: "?f (?s ! 1) = 0.82"
    by (simp add: cost_risk_solutions overall_score_evaluate_solution evaluate_defs)
  have zero: "?f (?s ! 0) = 0.74"
    by (simp add: cost_risk_solutions overall_score_evaluate_solution evaluate_defs)
  have "\<forall>v \<in> set (map ?f ?s). v \<le> 0.82"
    unfolding sc by simp
  then have "\<forall>j < length ?s. ?f (?s ! j) \<le> 0.82"
    by simp
  then have b: "\<forall>j < length ?s. ?f (?s ! j) \<le> ?f (?s ! 1)"
    unfolding one .
  have c: "\<forall>j < 1. ?f (?s ! j) < ?f (?s ! 1)"
    unfolding one using zero by simp
  have st: "map strategy ?s
      = [''aggressive'', ''balanced'', ''conservative'', ''innovative'', ''efficient'']"
    by (simp add: cost_risk_solutions)
  from metatrons_cube_selects_first_maximum [OF a b c]
  have "metatrons_cube_layer ?s = Inr (evaluate_solution (?s ! 1))" by blast
  with a sc st show ?thesis by blast
qed


section \<open>The engine as a whole\<close>

lemma empty_query_themes: "extract_themes '''' = [''general'']"
  by (simp add: extract_themes_def theme_keywords_def str_lower_def)

text \<open>
  Claim C5. Normal operation should never raise. The six layers do complete on every input:
  the empty query yields the themes \<open>[''general'']\<close> and layer 5 returns a final decision.
  But \<^verbatim>\<open>process\<close> then reads \<^verbatim>\<open>wisdom.final_decision\<close>, an attribute of a
  dictionary, and that read raises \<^verbatim>\<open>AttributeError\<close>: on every query, domain, context
  and clock reading the call ends in the error, and no result is returned.
\<close>

theorem process_raises_attribute_error:
  "extract_themes '''' = [''general'']
   \<and> (\<exists>w. process_wisdom order query domain context = Inr w)
   \<and> process order query domain context start_time end_time
        = Inl (AttributeError ''final_decision'')"
proof -
  from process_decision_some [of order query "context"] obtain sol
    where d: "process_decision order query context = Inr (evaluate_solution sol)" by blast
  have w: "process_wisdom order query domain context
             = Inr (conscious_field_layer (evaluate_solution sol) query domain)"
    by (simp add: process_wisdom_def d)
  have "process order query domain context start_time end_time
          = Inl (AttributeError ''final_decision'')"
    by (simp add: process_def w dict_getattr_def)
  with w empty_query_themes show ?thesis by simp
qed

text \<open>
  Claim C8. The domain label reaches the final decision only through its text. For every
  query and context there is one selected solution, and for every domain the final decision
  carries that solution's overall score as confidence and its risks, recommendations and
  scores unchanged. With the domain \<open>ecological\<close> the text is the fixed ecological
  sentence, whatever the decision it is applied to.
\<close>

theorem domain_changes_only_the_text:
  "(\<exists>decision. process_decision order query context = Inr decision
      \<and> (\<forall>domain. process_wisdom order query domain context =
            Inr \<lparr>final_decision = final_decision (apply_domain_knowledge domain decision),
                 confidence = overall_score decision,
                 risks = evaluated_solution.risks decision,
                 recommendations = evaluated_solution.recommendations decision,
                 geometric_balance = scores decision\<rparr>))
   \<and> final_decision (conscious_field_layer any_decision query ''ecological'')
        = ''Ecological approach: Prioritize sustainability and system health''"
proof -
  from process_decision_some [of order query "context"] obtain sol
    where d: "process_decision order query context = Inr (evaluate_solution sol)" by blast
  have "\<forall>domain. process_wisdom order query domain context =
            Inr \<lparr>final_decision =
                   final_decision (apply_domain_knowledge domain (evaluate_solution sol)),
                 confidence = overall_score (evaluate_solution sol),
                 risks = evaluated_solution.risks (evaluate_solution sol),
                 recommendations = evaluated_solution.recommendations (evaluate_solution sol),
                 geometric_balance = scores (evaluate_solution sol)\<rparr>"
    by (simp add: process_wisdom_def d conscious_field_layer_def)
  moreover have "final_decision (conscious_field_layer any_decision query ''ecological'')
        = ''Ecological approach: Prioritize sustainability and system health''"
    by (simp add: conscious_field_layer_def apply_domain_knowledge_def dict_get_def)
  ultimately show ?thesis using d by blast
qed


section \<open>Action lists under any iteration order\<close>

lemma extend_actions_append:
  "extend_actions actions pattern = actions @ dict_get pattern_actions pattern []"
  by (simp add: extend_actions_def dict_get_def split: option.split)

lemma foldl_extend_actions:
  "foldl extend_actions acc ps = acc @ concat (map (\<lambda>p. dict_get pattern_actions p []) ps)"
  by (induction ps arbitrary: acc) (simp_all add: extend_actions_append)

lemma set_iteration_remdups: "set_iteration remdups"
  by (simp add: set_iteration_def)

lemma set_iteration_length:
  assumes "set_iteration order"
  shows "length (order xs) = card (set xs)"
proof -
  from assms have "distinct (order xs)" and "set (order xs) = set xs"
    by (simp_all add: set_iteration_def)
  then show ?thesis using distinct_card [of "order xs"] by simp
qed

lemma generate_actions_props:
  assumes "set_iteration order"
  shows "distinct (generate_actions order strat ps)"
    and "set (generate_actions order strat ps)
           \<subseteq> set (dict_get base_actions strat [])
             \<union> (\<Union>p \<in> set ps. set (dict_get pattern_actions p []))"
    and "length (generate_actions order strat ps)
           = min 5 (card (set (dict_get base_actions strat [])
                      \<union> (\<Union>p \<in> set ps. set (dict_get pattern_actions p []))))"
proof -
  let ?pool = "foldl extend_actions (dict_get base_actions strat []) ps"
  have pool: "set ?pool = set (dict_get base_actions strat [])
                 \<union> (\<Union>p \<in> set ps. set (dict_get pattern_actions p []))"
    by (simp add: foldl_extend_actions)
  from assms have d: "distinct (order ?pool)" and s: "set (order ?pool) = set ?pool"
    by (simp_all add: set_iteration_def)
  show "distinct (generate_actions order strat ps)"
    using d by (simp add: generate_actions_def)
  show "set (generate_actions order strat ps)
           \<subseteq> set (dict_get base_actions strat [])
             \<union> (\<Union>p \<in> set ps. set (dict_get pattern_actions p []))"
    using set_take_subset [of 5 "order ?pool"] s pool by (simp add: generate_actions_def)
  show "length (generate_actions order strat ps)
           = min 5 (card (set (dict_get base_actions strat [])
                      \<union> (\<Union>p \<in> set ps. set (dict_get pattern_actions p []))))"
    using set_iteration_length [OF assms, of ?pool] pool
    by (simp add: generate_actions_def min.commute)
qed

lemma generate_actions_length_order:
  assumes "set_iteration order1" and "set_iteration order2"
  shows "length (generate_actions order1 strat ps) = length (generate_actions order2 strat ps)"
  using generate_actions_props(3) [OF assms(1)] generate_actions_props(3) [OF assms(2)] by simp



lemma card_ge_distinct:
  assumes "distinct ys" and "set ys \<subseteq> A" and "finite A"
  shows "length ys \<le> card A"
  using assms by (metis card_mono distinct_card)

lemma base_actions_cases:
  assumes "strat \<in> set strategy_types"
  shows "\<exists>a b c. dict_get base_actions strat [] = [a, b, c] \<and> distinct [a, b, c]
           \<and> set [a, b, c] \<inter> set (concat (map snd pattern_actions)) = {}"
proof -
  from assms have "strat = ''aggressive'' \<or> strat = ''balanced'' \<or> strat = ''conservative''
      \<or> strat = ''innovative'' \<or> strat = ''efficient''"
    by (simp add: strategy_types_def)
  then show ?thesis
  proof (elim disjE)
    assume "strat = ''aggressive''"
    then show ?thesis by (simp add: base_actions_def pattern_actions_def dict_get_def)
  next
    assume "strat = ''balanced''"
    then show ?thesis by (simp add: base_actions_def pattern_actions_def dict_get_def)
  next
    assume "strat = ''conservative''"
    then show ?thesis by (simp add: base_actions_def pattern_actions_def dict_get_def)
  next
    assume "strat = ''innovative''"
    then show ?thesis by (simp add: base_actions_def pattern_actions_def dict_get_def)
  next
    assume "strat = ''efficient''"
    then show ?thesis by (simp add: base_actions_def pattern_actions_def dict_get_def)
  qed
qed

lemma pattern_actions_cases:
  "dict_get pattern_actions p [] = []
   \<or> (\<exists>a b. dict_get pattern_actions p [] = [a, b] \<and> a \<noteq> b
          \<and> {a, b} \<subseteq> set (concat (map snd pattern_actions)))"
  by (simp add: pattern_actions_def dict_get_def)

lemma pattern_actions_empty:
  "dict_get pattern_actions p [] = [] \<longleftrightarrow>
     p \<notin> {''growth_expansion'', ''stability_structure'', ''innovation_creativity''}"
  by (simp add: pattern_actions_def dict_get_def)

lemma generate_actions_length:
  assumes ord: "set_iteration order" and strat: "strat \<in> set strategy_types"
  shows "length (generate_actions order strat ps) =
     (if \<exists>p \<in> set ps. p \<in> {''growth_expansion'', ''stability_structure'', ''innovation_creativity''}
      then 5 else 3)"
proof -
  define six where "six = set (concat (map snd pattern_actions))"
  define keys where "keys = {''growth_expansion'', ''stability_structure'', ''innovation_creativity''}"
  let ?B = "set (dict_get base_actions strat [])"
  let ?P = "\<Union>p \<in> set ps. set (dict_get pattern_actions p [])"
  from base_actions_cases [OF strat] obtain a b c
    where base: "dict_get base_actions strat [] = [a, b, c]" and dist: "distinct [a, b, c]"
      and disj: "set [a, b, c] \<inter> six = {}" unfolding six_def by blast
  have len: "length (generate_actions order strat ps) = min 5 (card (?B \<union> ?P))"
    by (rule generate_actions_props(3) [OF ord])
  have fin: "finite (?B \<union> ?P)" by simp
  have empty_iff: "\<And>p. dict_get pattern_actions p [] = [] \<longleftrightarrow> p \<notin> keys"
    unfolding keys_def by (rule pattern_actions_empty)
  show ?thesis
  proof (cases "\<exists>p \<in> set ps. p \<in> keys")
    case True
    then obtain p where p: "p \<in> set ps" and "dict_get pattern_actions p [] \<noteq> []"
      using empty_iff by blast
    with pattern_actions_cases [of p] obtain x y
      where xy: "dict_get pattern_actions p [] = [x, y]" and ne: "x \<noteq> y"
        and sub: "{x, y} \<subseteq> six" unfolding six_def by blast
    have "x \<notin> set [a, b, c]" and "y \<notin> set [a, b, c]"
      using disj sub by blast+
    then have "distinct [a, b, c, x, y]"
      using dist ne by auto
    moreover have "set [x, y] \<subseteq> ?P"
      using xy p by (metis UN_upper)
    then have "set [a, b, c, x, y] \<subseteq> ?B \<union> ?P"
      unfolding base by auto
    ultimately have "length [a, b, c, x, y] \<le> card (?B \<union> ?P)"
      using fin by (rule card_ge_distinct)
    then have "5 \<le> card (?B \<union> ?P)" by simp
    with len True show ?thesis unfolding keys_def by simp
  next
    case False
    then have "?P = {}" using empty_iff by simp
    then have "card (?B \<union> ?P) = card (set [a, b, c])" using base by simp
    also have "\<dots> = 3" using dist distinct_card [of "[a, b, c]"] by simp
    finally show ?thesis using len False unfolding keys_def by simp
  qed
qed


section \<open>Scores of the five blueprints\<close>

lemma blueprint_fields:
  "strategy (generate_blueprint order strat net query) = strat"
  "focus_patterns (generate_blueprint order strat net query) = take 2 (central_patterns net)"
  "key_actions (generate_blueprint order strat net query)
     = generate_actions order strat (central_patterns net)"
  "expected_outcome (generate_blueprint order strat net query)
     = ''Balanced approach focusing on '' @ str_join '', '' (take 2 (central_patterns net))"
  "risk_level (generate_blueprint order strat net query)
     = (if strat = ''balanced'' then ''medium''
        else if strat = ''aggressive'' then ''high'' else ''low'')"
  by (simp_all add: generate_blueprint_def Let_def)

lemma evaluate_purpose_blueprint:
  "evaluate_purpose (generate_blueprint order strat net query)
     = evaluate_purpose (generate_blueprint order' strat' net query')"
  by (simp add: evaluate_purpose_def blueprint_fields)

lemma evaluate_clarity_blueprint:
  assumes "set_iteration order" and "strat \<in> set strategy_types"
  shows "evaluate_clarity (generate_blueprint order strat net query) =
     (if \<exists>p \<in> set (central_patterns net).
           p \<in> {''growth_expansion'', ''stability_structure'', ''innovation_creativity''}
      then 1 else 0.6)"
  unfolding evaluate_clarity_def blueprint_fields generate_actions_length [OF assms]
  by simp

lemma strategy_scores:
  "evaluate_action_focus (generate_blueprint order ''aggressive'' net query) = 0.9"
  "evaluate_action_focus (generate_blueprint order ''balanced'' net query) = 0.7"
  "evaluate_action_focus (generate_blueprint order ''conservative'' net query) = 0.5"
  "evaluate_action_focus (generate_blueprint order ''innovative'' net query) = 0.5"
  "evaluate_action_focus (generate_blueprint order ''efficient'' net query) = 0.5"
  "evaluate_stability (generate_blueprint order ''aggressive'' net query) = 0.4"
  "evaluate_stability (generate_blueprint order ''balanced'' net query) = 0.7"
  "evaluate_stability (generate_blueprint order ''conservative'' net query) = 0.9"
  "evaluate_stability (generate_blueprint order ''innovative'' net query) = 0.9"
  "evaluate_stability (generate_blueprint order ''efficient'' net query) = 0.9"
  "evaluate_adaptability (generate_blueprint order ''aggressive'' net query) = 0.5"
  "evaluate_adaptability (generate_blueprint order ''balanced'' net query) = 0.8"
  "evaluate_adaptability (generate_blueprint order ''conservative'' net query) = 0.5"
  "evaluate_adaptability (generate_blueprint order ''innovative'' net query) = 0.8"
  "evaluate_adaptability (generate_blueprint order ''efficient'' net query) = 0.5"
  by (simp_all add: evaluate_action_focus_def evaluate_stability_def evaluate_adaptability_def
        blueprint_fields)

lemma overall_scores_blueprints:
  assumes ord: "set_iteration order"
  defines "cp \<equiv> \<lambda>net query. evaluate_clarity (generate_blueprint order ''balanced'' net query)
                     + evaluate_purpose (generate_blueprint order ''balanced'' net query)"
  shows "overall_score (evaluate_solution (generate_blueprint order ''aggressive'' net query))
           = (1.8 + cp net query) / 5"
    and "overall_score (evaluate_solution (generate_blueprint order ''balanced'' net query))
           = (2.2 + cp net query) / 5"
    and "overall_score (evaluate_solution (generate_blueprint order ''conservative'' net query))
           = (1.9 + cp net query) / 5"
    and "overall_score (evaluate_solution (generate_blueprint order ''innovative'' net query))
           = (2.2 + cp net query) / 5"
    and "overall_score (evaluate_solution (generate_blueprint order ''efficient'' net query))
           = (1.9 + cp net query) / 5"
proof -
  have c: "\<And>strat. strat \<in> set strategy_types \<Longrightarrow>
      evaluate_clarity (generate_blueprint order strat net query)
        = evaluate_clarity (generate_blueprint order ''balanced'' net query)"
    by (simp add: evaluate_clarity_blueprint [OF ord] strategy_types_def)
  have p: "\<And>strat. evaluate_purpose (generate_blueprint order strat net query)
        = evaluate_purpose (generate_blueprint order ''balanced'' net query)"
    by (rule evaluate_purpose_blueprint)
  have m: "''aggressive'' \<in> set strategy_types" "''conservative'' \<in> set strategy_types"
    "''innovative'' \<in> set strategy_types" "''efficient'' \<in> set strategy_types"
    by (simp_all add: strategy_types_def)
  show "overall_score (evaluate_solution (generate_blueprint order ''aggressive'' net query))
           = (1.8 + cp net query) / 5"
    by (simp add: overall_score_evaluate_solution strategy_scores c [OF m(1)] p [of "''aggressive''"] cp_def)
  show "overall_score (evaluate_solution (generate_blueprint order ''balanced'' net query))
           = (2.2 + cp net query) / 5"
    by (simp add: overall_score_evaluate_solution strategy_scores cp_def)
  show "overall_score (evaluate_solution (generate_blueprint order ''conservative'' net query))
           = (1.9 + cp net query) / 5"
    by (simp add: overall_score_evaluate_solution strategy_scores c [OF m(2)] p [of "''conservative''"] cp_def)
  show "overall_score (evaluate_solution (generate_blueprint order ''innovative'' net query))
           = (2.2 + cp net query) / 5"
    by (simp add: overall_score_evaluate_solution strategy_scores c [OF m(3)] p [of "''innovative''"] cp_def)
  show "overall_score (evaluate_solution (generate_blueprint order ''efficient'' net query))
           = (1.9 + cp net query) / 5"
    by (simp add: overall_score_evaluate_solution strategy_scores c [OF m(4)] p [of "''efficient''"] cp_def)
qed

lemma balanced_is_selected:
  assumes ord: "set_iteration order"
  shows "metatrons_cube_layer (fruit_of_life_layer order net query)
           = Inr (evaluate_solution (generate_blueprint order ''balanced'' net query))"
  by (simp add: metatrons_cube_layer_def fruit_of_life_layer_unfold py_max_def
        overall_scores_blueprints [OF ord])


section \<open>The winner of every analysis\<close>

lemma process_decision_balanced:
  assumes "set_iteration order"
  shows "process_decision order query context =
     Inr (evaluate_solution
            (generate_blueprint order ''balanced'' (process_network query context) query))"
  by (simp add: process_decision_def process_solutions_def balanced_is_selected [OF assms])

lemma clarity_values:
  assumes "set_iteration order" and "strat \<in> set strategy_types"
  shows "evaluate_clarity (generate_blueprint order strat net query) \<in> {0.6, 1}"
  by (simp add: evaluate_clarity_blueprint [OF assms])

lemma purpose_values: "evaluate_purpose sol \<in> {0.6, 0.9}"
  by (simp add: evaluate_purpose_def)

lemma cost_risk_decision:
  "process_decision remdups ''cost risk'' ctx =
     Inr (evaluate_solution (process_solutions remdups ''cost risk'' ctx ! 1))"
  by (simp add: process_decision_def metatrons_cube_layer_def py_max_def cost_risk_solutions
        overall_score_evaluate_solution evaluate_defs)

lemma cost_risk_confidence:
  "overall_score (evaluate_solution (process_solutions remdups ''cost risk'' ctx ! 1)) = 0.82"
  by (simp add: cost_risk_solutions overall_score_evaluate_solution evaluate_defs)

text \<open>
  Claim C9. Under every iteration order of the set and for every query, domain and context,
  the selected blueprint is the balanced one: its overall score equals that of the innovative
  blueprint and no blueprint of the analysis scores higher, so the first of the two in the
  enumeration order is returned. Its risk level is \<open>medium\<close>, and the confidence of the final
  decision is one of 0.68, 0.74, 0.76 and 0.82.
\<close>

theorem balanced_blueprint_always_wins:
  assumes "set_iteration order"
  shows "\<exists>decision w.
       process_decision order query context = Inr decision
     \<and> strategy (solution decision) = ''balanced''
     \<and> risk_level (solution decision) = ''medium''
     \<and> overall_score decision =
         overall_score (evaluate_solution
           (generate_blueprint order ''innovative'' (process_network query context) query))
     \<and> (\<forall>sol \<in> set (process_solutions order query context).
           overall_score (evaluate_solution sol) \<le> overall_score decision)
     \<and> process_wisdom order query domain context = Inr w
     \<and> confidence w = overall_score decision
     \<and> confidence w \<in> {0.68, 0.74, 0.76, 0.82}"
proof -
  let ?net = "process_network query context"
  let ?b = "generate_blueprint order ''balanced'' ?net query"
  let ?d = "evaluate_solution ?b"
  let ?w = "conscious_field_layer ?d query domain"
  note sc = overall_scores_blueprints [OF assms, of ?net query]
  have d: "process_decision order query context = Inr ?d"
    by (rule process_decision_balanced [OF assms])
  have s: "strategy (solution ?d) = ''balanced''" and r: "risk_level (solution ?d) = ''medium''"
    by (simp_all add: solution_evaluate_solution blueprint_fields)
  have tie: "overall_score ?d = overall_score (evaluate_solution
           (generate_blueprint order ''innovative'' ?net query))"
    by (simp add: sc)
  have top: "\<forall>sol \<in> set (process_solutions order query context).
           overall_score (evaluate_solution sol) \<le> overall_score ?d"
    by (simp add: process_solutions_def fruit_of_life_layer_unfold sc)
  have w: "process_wisdom order query domain context = Inr ?w"
    by (simp add: process_wisdom_def d)
  have c: "confidence ?w = overall_score ?d"
    by (simp add: conscious_field_layer_def)
  have "''balanced'' \<in> set strategy_types" by (simp add: strategy_types_def)
  from clarity_values [OF assms this, of ?net query] purpose_values [of ?b]
  have v: "overall_score ?d \<in> {0.68, 0.74, 0.76, 0.82}"
    unfolding sc(2) by auto
  from d s r tie top w c v show ?thesis by auto
qed

theorem balanced_blueprint_always_wins_witness:
  "set_iteration remdups
   \<and> (\<exists>decision w.
       process_decision remdups ''cost risk'' () = Inr decision
     \<and> strategy (solution decision) = ''balanced''
     \<and> risk_level (solution decision) = ''medium''
     \<and> process_wisdom remdups ''cost risk'' ''business'' () = Inr w
     \<and> confidence w = 0.82)"
proof -
  from balanced_blueprint_always_wins
         [OF set_iteration_remdups, of "''cost risk''" "()" "''business''"]
  obtain decision w where d: "process_decision remdups ''cost risk'' () = Inr decision"
    and s: "strategy (solution decision) = ''balanced''"
    and r: "risk_level (solution decision) = ''medium''"
    and w: "process_wisdom remdups ''cost risk'' ''business'' () = Inr w"
    and c: "confidence w = overall_score decision"
    by blast
  from d have "decision = evaluate_solution (process_solutions remdups ''cost risk'' () ! 1)"
    by (simp add: cost_risk_decision)
  then have "overall_score decision = 0.82"
    by (simp only: cost_risk_confidence)
  with c have "confidence w = 0.82" by simp
  with d s r w set_iteration_remdups show ?thesis by blast
qed


section \<open>Risks\<close>

lemma risks_evaluate_solution:
  "evaluated_solution.risks (evaluate_solution sol) = identify_risks (scores (evaluate_solution sol))"
  by (simp add: evaluate_solution_def Let_def)

lemma recommendations_evaluate_solution:
  "evaluated_solution.recommendations (evaluate_solution sol)
     = generate_recommendations (scores (evaluate_solution sol))"
  by (simp add: evaluate_solution_def Let_def)

lemma overall_score_scores:
  "overall_score (evaluate_solution sol) = sum_list (map snd (scores (evaluate_solution sol))) / 5"
  by (simp add: evaluate_solution_def Let_def)

lemma evaluator_lower_bounds:
  "0.5 \<le> evaluate_action_focus sol" "0.4 \<le> evaluate_stability sol"
  "0.5 \<le> evaluate_adaptability sol" "0.6 \<le> evaluate_purpose sol"
  by (simp_all add: evaluate_action_focus_def evaluate_stability_def evaluate_adaptability_def
        evaluate_purpose_def)

lemma clarity_lower_bound:
  assumes "set_iteration order" and "strat \<in> set strategy_types"
  shows "0.6 \<le> evaluate_clarity (generate_blueprint order strat net query)"
  by (simp add: evaluate_clarity_blueprint [OF assms])

lemma identify_risks_fallback:
  assumes "0.3 \<le> a" "0.3 \<le> b" "0.3 \<le> c" "0.3 \<le> d" "0.3 \<le> e"
  shows "identify_risks [(''action_focus'', a), (''stability_foundation'', b),
            (''clarity_logic'', c), (''adaptability_empathy'', d), (''purpose_potential'', e)]
         = [''Low to moderate risks identified'']"
  using assms by (simp add: identify_risks_def dict_get_def)

lemma blueprint_risks:
  assumes "set_iteration order" and "strat \<in> set strategy_types"
  shows "evaluated_solution.risks (evaluate_solution (generate_blueprint order strat net query))
           = [''Low to moderate risks identified'']"
  unfolding risks_evaluate_solution scores_evaluate_solution
proof (rule identify_risks_fallback)
  let ?b = "generate_blueprint order strat net query"
  show "0.3 \<le> evaluate_action_focus ?b" using evaluator_lower_bounds(1) [of ?b] by simp
  show "0.3 \<le> evaluate_stability ?b" using evaluator_lower_bounds(2) [of ?b] by simp
  show "0.3 \<le> evaluate_clarity ?b" using clarity_lower_bound [OF assms, of net query] by simp
  show "0.3 \<le> evaluate_adaptability ?b" using evaluator_lower_bounds(3) [of ?b] by simp
  show "0.3 \<le> evaluate_purpose ?b" using evaluator_lower_bounds(4) [of ?b] by simp
qed

text \<open>
  Claim C10. Under every iteration order of the set, the risks of the final decision are the
  single fallback message, for every query, domain and context. The reason is on the
  blueprints: for each of the five strategies and any network, the action focus is at least
  0.5, the stability at least 0.4, the clarity at least 0.6 (three base actions survive the
  deduplication), the adaptability at least 0.5 and the purpose at least 0.6, so no dimension
  is below 0.3 and no risk message is triggered.
\<close>

theorem risks_are_the_fallback:
  assumes "set_iteration order"
  shows "(\<exists>w. process_wisdom order query domain context = Inr w
            \<and> risks w = [''Low to moderate risks identified''])
     \<and> (\<forall>strat \<in> set strategy_types.
           0.5 \<le> evaluate_action_focus (generate_blueprint order strat net q)
         \<and> 0.4 \<le> evaluate_stability (generate_blueprint order strat net q)
         \<and> 0.6 \<le> evaluate_clarity (generate_blueprint order strat net q)
         \<and> 0.5 \<le> evaluate_adaptability (generate_blueprint order strat net q)
         \<and> 0.6 \<le> evaluate_purpose (generate_blueprint order strat net q)
         \<and> evaluated_solution.risks (evaluate_solution (generate_blueprint order strat net q))
             = [''Low to moderate risks identified''])"
proof -
  from process_decision_some [of order query "context"] obtain sol
    where mem: "sol \<in> set (process_solutions order query context)"
      and d: "process_decision order query context = Inr (evaluate_solution sol)" by blast
  from mem obtain strat where strat: "strat \<in> set strategy_types"
    and sol: "sol = generate_blueprint order strat (process_network query context) query"
    by (auto simp: process_solutions_def fruit_of_life_layer_def)
  have "process_wisdom order query domain context
          = Inr (conscious_field_layer (evaluate_solution sol) query domain)"
    by (simp add: process_wisdom_def d)
  moreover have "risks (conscious_field_layer (evaluate_solution sol) query domain)
          = [''Low to moderate risks identified'']"
    unfolding sol using blueprint_risks [OF assms strat]
    by (simp add: conscious_field_layer_def)
  ultimately have first: "\<exists>w. process_wisdom order query domain context = Inr w
            \<and> risks w = [''Low to moderate risks identified'']" by blast
  have second: "\<forall>strat \<in> set strategy_types.
           0.5 \<le> evaluate_action_focus (generate_blueprint order strat net q)
         \<and> 0.4 \<le> evaluate_stability (generate_blueprint order strat net q)
         \<and> 0.6 \<le> evaluate_clarity (generate_blueprint order strat net q)
         \<and> 0.5 \<le> evaluate_adaptability (generate_blueprint order strat net q)
         \<and> 0.6 \<le> evaluate_purpose (generate_blueprint order strat net q)
         \<and> evaluated_solution.risks (evaluate_solution (generate_blueprint order strat net q))
             = [''Low to moderate risks identified'']"
    using evaluator_lower_bounds clarity_lower_bound [OF assms] blueprint_risks [OF assms]
    by blast
  from first second show ?thesis by blast
qed

theorem risks_are_the_fallback_witness:
  "set_iteration remdups
   \<and> ''aggressive'' \<in> set strategy_types
   \<and> evaluate_stability (process_solutions remdups ''cost risk'' () ! 0) = 0.4
   \<and> (0.4::real) \<le> evaluate_stability (process_solutions remdups ''cost risk'' () ! 0)
   \<and> (\<exists>w. process_wisdom remdups ''cost risk'' ''business'' () = Inr w
            \<and> risks w = [''Low to moderate risks identified''])"
proof -
  note t = risks_are_the_fallback [OF set_iteration_remdups,
      of "''cost risk''" "''business''" "()" "process_network ''cost risk'' ()" "''cost risk''"]
  have m: "''aggressive'' \<in> set strategy_types" by (simp add: strategy_types_def)
  have e: "process_solutions remdups ''cost risk'' () ! 0
      = generate_blueprint remdups ''aggressive'' (process_network ''cost risk'' ()) ''cost risk''"
    by (simp add: process_solutions_def fruit_of_life_layer_unfold)
  have v: "evaluate_stability (process_solutions remdups ''cost risk'' () ! 0) = 0.4"
    by (simp add: cost_risk_solutions evaluate_stability_def)
  from t m have "0.4 \<le> evaluate_stability
      (generate_blueprint remdups ''aggressive'' (process_network ''cost risk'' ()) ''cost risk'')"
    by blast
  then have "(0.4::real) \<le> evaluate_stability (process_solutions remdups ''cost risk'' () ! 0)"
    unfolding e .
  with t m v set_iteration_remdups show ?thesis by blast
qed


section \<open>Determinism\<close>

lemma scores_order_independent:
  assumes "set_iteration order1" and "set_iteration order2" and "strat \<in> set strategy_types"
  shows "scores (evaluate_solution (generate_blueprint order1 strat net query))
       = scores (evaluate_solution (generate_blueprint order2 strat net query))"
  by (simp add: scores_evaluate_solution evaluate_clarity_blueprint [OF assms(1,3)]
        evaluate_clarity_blueprint [OF assms(2,3)] evaluate_action_focus_def
        evaluate_stability_def evaluate_adaptability_def evaluate_purpose_def blueprint_fields)

lemma wisdom_order_independent:
  assumes "set_iteration order1" and "set_iteration order2" and "strat \<in> set strategy_types"
  shows "conscious_field_layer (evaluate_solution (generate_blueprint order1 strat net query))
           query domain
       = conscious_field_layer (evaluate_solution (generate_blueprint order2 strat net query))
           query domain"
  by (simp add: conscious_field_layer_def apply_domain_knowledge_def Let_def
        overall_score_scores risks_evaluate_solution recommendations_evaluate_solution
        scores_order_independent [OF assms] solution_evaluate_solution blueprint_fields)

text \<open>
  Claim C3. The final decision of an analysis is a function of the query, the domain and the
  context alone. The only source of variation between two runs is the iteration order of the
  set that deduplicates the actions (the clock is not read by any layer): for any two such
  orders the dictionary bound to \<^verbatim>\<open>wisdom\<close> is the same, text, confidence, risks,
  recommendations and geometric balance, and it is always produced. The action lists
  themselves may differ between the two runs; the final decision reads only their length.
\<close>

theorem final_decision_deterministic:
  assumes "set_iteration order1" and "set_iteration order2"
  shows "process_wisdom order1 query domain context = process_wisdom order2 query domain context
     \<and> (\<exists>w. process_wisdom order1 query domain context = Inr w)"
proof -
  have b: "''balanced'' \<in> set strategy_types" by (simp add: strategy_types_def)
  show ?thesis
    by (simp add: process_wisdom_def process_decision_balanced [OF assms(1)]
          process_decision_balanced [OF assms(2)] wisdom_order_independent [OF assms b])
qed

theorem final_decision_deterministic_witness:
  "set_iteration remdups \<and> set_iteration (\<lambda>xs. rev (remdups xs))
   \<and> process_wisdom remdups ''cost risk'' ''business'' ()
       = process_wisdom (\<lambda>xs. rev (remdups xs)) ''cost risk'' ''business'' ()
   \<and> key_actions (generate_blueprint remdups ''balanced'' (process_network ''cost risk'' ()) ''cost risk'')
       \<noteq> key_actions (generate_blueprint (\<lambda>xs. rev (remdups xs)) ''balanced''
             (process_network ''cost risk'' ()) ''cost risk'')"
proof -
  have r: "set_iteration (\<lambda>xs. rev (remdups xs))"
    by (simp add: set_iteration_def)
  have k: "key_actions (generate_blueprint remdups ''balanced'' (process_network ''cost risk'' ()) ''cost risk'')
       \<noteq> key_actions (generate_blueprint (\<lambda>xs. rev (remdups xs)) ''balanced''
             (process_network ''cost risk'' ()) ''cost risk'')"
    by (simp add: blueprint_fields cost_risk_central generate_actions_def extend_actions_def
          base_actions_def pattern_actions_def dict_get_def)
  from final_decision_deterministic [OF set_iteration_remdups r,
      of "''cost risk''" "''business''" "()"] set_iteration_remdups r k
  show ?thesis by blast
qed


section \<open>Key actions of a blueprint\<close>

text \<open>
  Claim C2, as the code has it. The focus patterns of a blueprint are the first two central
  patterns, but its actions are collected from all central patterns (up to three): under
  every iteration order of the set, the key actions are a duplicate-free list of at most five
  entries, all drawn from the strategy's base actions and the action lists of the central
  patterns; the list has five entries or as many as that pool holds, and it is the whole pool
  when the pool has at most five entries.
\<close>

theorem key_actions_from_central_patterns:
  assumes "set_iteration order"
  shows "focus_patterns (generate_blueprint order strat net query) = take 2 (central_patterns net)
     \<and> distinct (key_actions (generate_blueprint order strat net query))
     \<and> length (key_actions (generate_blueprint order strat net query)) \<le> 5
     \<and> set (key_actions (generate_blueprint order strat net query))
           \<subseteq> set (dict_get base_actions strat [])
             \<union> (\<Union>p \<in> set (central_patterns net). set (dict_get pattern_actions p []))
     \<and> length (key_actions (generate_blueprint order strat net query))
           = min 5 (card (set (dict_get base_actions strat [])
               \<union> (\<Union>p \<in> set (central_patterns net). set (dict_get pattern_actions p []))))
     \<and> (card (set (dict_get base_actions strat [])
               \<union> (\<Union>p \<in> set (central_patterns net). set (dict_get pattern_actions p []))) \<le> 5
          \<longrightarrow> set (key_actions (generate_blueprint order strat net query))
                = set (dict_get base_actions strat [])
                  \<union> (\<Union>p \<in> set (central_patterns net). set (dict_get pattern_actions p [])))"
proof -
  let ?ka = "generate_actions order strat (central_patterns net)"
  let ?pool = "set (dict_get base_actions strat [])
                 \<union> (\<Union>p \<in> set (central_patterns net). set (dict_get pattern_actions p []))"
  note p = generate_actions_props [OF assms, of strat "central_patterns net"]
  have fin: "finite ?pool" by simp
  have le: "length ?ka \<le> 5" using p(3) by simp
  have full: "set ?ka = ?pool" if "card ?pool \<le> 5"
  proof (rule card_subset_eq [OF fin p(2)])
    from that p(3) have "length ?ka = card ?pool" by simp
    then show "card (set ?ka) = card ?pool" using distinct_card [OF p(1)] by simp
  qed
  from p le full show ?thesis
    unfolding blueprint_fields by blast
qed

theorem key_actions_from_central_patterns_witness:
  "set_iteration remdups
   \<and> focus_patterns (process_solutions remdups ''cost risk'' () ! 1)
        = [''opportunity_potential'', ''risk_challenge'']
   \<and> central_patterns (process_network ''cost risk'' ())
        = [''opportunity_potential'', ''risk_challenge'', ''growth_expansion'']
   \<and> distinct (key_actions (process_solutions remdups ''cost risk'' () ! 1))
   \<and> set (key_actions (process_solutions remdups ''cost risk'' () ! 1))
        = {''Plan carefully'', ''Balance resources'', ''Set realistic targets'',
           ''Focus on market expansion'', ''Increase capacity''}"
proof -
  let ?net = "process_network ''cost risk'' ()"
  let ?pool = "set (dict_get base_actions ''balanced'' [])
       \<union> (\<Union>p \<in> set (central_patterns ?net). set (dict_get pattern_actions p []))"
  have e: "process_solutions remdups ''cost risk'' () ! 1
      = generate_blueprint remdups ''balanced'' ?net ''cost risk''"
    by (simp add: process_solutions_def fruit_of_life_layer_unfold)
  have pool: "?pool = {''Plan carefully'', ''Balance resources'', ''Set realistic targets'',
           ''Focus on market expansion'', ''Increase capacity''}"
    by (auto simp add: cost_risk_central base_actions_def pattern_actions_def dict_get_def)
  have card: "card ?pool \<le> 5"
    unfolding pool by (simp add: card_insert_if)
  note t = key_actions_from_central_patterns [OF set_iteration_remdups,
      of "''balanced''" ?net "''cost risk''"]
  from t card have "set (key_actions (generate_blueprint remdups ''balanced'' ?net ''cost risk''))
      = ?pool" by blast
  then have s: "set (key_actions (process_solutions remdups ''cost risk'' () ! 1))
        = {''Plan carefully'', ''Balance resources'', ''Set realistic targets'',
           ''Focus on market expansion'', ''Increase capacity''}"
    unfolding e pool .
  from t have d: "distinct (key_actions (process_solutions remdups ''cost risk'' () ! 1))"
    unfolding e by blast
  from t have f: "focus_patterns (process_solutions remdups ''cost risk'' () ! 1)
        = [''opportunity_potential'', ''risk_challenge'']"
    unfolding e by (simp add: cost_risk_central)
  from s d f set_iteration_remdups cost_risk_central [of "()"] show ?thesis by blast
qed

text \<open>
  The claim as first stated, with the actions keyed by the focus patterns only, fails on the
  query \<open>cost risk\<close>: the focus patterns are \<open>opportunity_potential\<close> and
  \<open>risk_challenge\<close>, neither of which has an action list, so base and focus patterns give
  three actions; the balanced blueprint has five, two of them from the third central pattern
  \<open>growth_expansion\<close>. The five are distinct, so every iteration order keeps all of them.
\<close>

theorem key_actions_beyond_focus_counterexample:
  "focus_patterns (process_solutions remdups ''cost risk'' () ! 1)
        = [''opportunity_potential'', ''risk_challenge'']
   \<and> foldl extend_actions (dict_get base_actions ''balanced'' [])
         (focus_patterns (process_solutions remdups ''cost risk'' () ! 1))
        = [''Plan carefully'', ''Balance resources'', ''Set realistic targets'']
   \<and> key_actions (process_solutions remdups ''cost risk'' () ! 1)
        = [''Plan carefully'', ''Balance resources'', ''Set realistic targets'',
           ''Focus on market expansion'', ''Increase capacity'']
   \<and> ''Focus on market expansion'' \<in> set (dict_get pattern_actions ''growth_expansion'' [])
   \<and> ''growth_expansion'' \<notin> set (focus_patterns (process_solutions remdups ''cost risk'' () ! 1))"
  by (simp add: cost_risk_solutions extend_actions_def base_actions_def pattern_actions_def
        dict_get_def)


section \<open>Pattern strengths\<close>

lemma seed_insight_step_universe:
  "seed_insight_step insight
     [(''growth_expansion'', a1), (''stability_structure'', a2), (''connection_relationship'', a3),
      (''innovation_creativity'', a4), (''efficiency_optimization'', a5), (''risk_challenge'', a6),
      (''opportunity_potential'', a7)] =
     [(''growth_expansion'', max a1 (calculate_pattern_strength insight ''growth_expansion'')),
      (''stability_structure'', max a2 (calculate_pattern_strength insight ''stability_structure'')),
      (''connection_relationship'',
         max a3 (calculate_pattern_strength insight ''connection_relationship'')),
      (''innovation_creativity'',
         max a4 (calculate_pattern_strength insight ''innovation_creativity'')),
      (''efficiency_optimization'',
         max a5 (calculate_pattern_strength insight ''efficiency_optimization'')),
      (''risk_challenge'', max a6 (calculate_pattern_strength insight ''risk_challenge'')),
      (''opportunity_potential'',
         max a7 (calculate_pattern_strength insight ''opportunity_potential''))]"
  by (simp add: seed_insight_step_def seed_pattern_step_def dict_get_def)

lemma seed_fold_universe:
  "fold seed_insight_step insights
     [(''growth_expansion'', a1), (''stability_structure'', a2), (''connection_relationship'', a3),
      (''innovation_creativity'', a4), (''efficiency_optimization'', a5), (''risk_challenge'', a6),
      (''opportunity_potential'', a7)] =
     [(''growth_expansion'',
         fold (\<lambda>i a. max a (calculate_pattern_strength i ''growth_expansion'')) insights a1),
      (''stability_structure'',
         fold (\<lambda>i a. max a (calculate_pattern_strength i ''stability_structure'')) insights a2),
      (''connection_relationship'',
         fold (\<lambda>i a. max a (calculate_pattern_strength i ''connection_relationship'')) insights a3),
      (''innovation_creativity'',
         fold (\<lambda>i a. max a (calculate_pattern_strength i ''innovation_creativity'')) insights a4),
      (''efficiency_optimization'',
         fold (\<lambda>i a. max a (calculate_pattern_strength i ''efficiency_optimization'')) insights a5),
      (''risk_challenge'',
         fold (\<lambda>i a. max a (calculate_pattern_strength i ''risk_challenge'')) insights a6),
      (''opportunity_potential'',
         fold (\<lambda>i a. max a (calculate_pattern_strength i ''opportunity_potential'')) insights a7)]"
proof (induction insights arbitrary: a1 a2 a3 a4 a5 a6 a7)
  case Nil
  show ?case by simp
next
  case (Cons i insights)
  show ?case
    by (simp only: fold_simps seed_insight_step_universe Cons.IH)
qed

lemma fold_max_Max:
  fixes f :: "'a \<Rightarrow> real"
  shows "fold (\<lambda>i a. max a (f i)) xs a = Max (insert a (f ` set xs))"
proof (induction xs arbitrary: a)
  case Nil
  show ?case by simp
next
  case (Cons x xs)
  have "fold (\<lambda>i a. max a (f i)) (x # xs) a = Max (insert (max a (f x)) (f ` set xs))"
    by (simp add: Cons.IH)
  also have "\<dots> = Max (insert a (insert (f x) (f ` set xs)))"
  proof (cases "xs = []")
    case True
    then show ?thesis by (simp add: max.commute)
  next
    case False
    then have ne: "f ` set xs \<noteq> {}" by simp
    have fin: "finite (f ` set xs)" by simp
    show ?thesis
      using ne fin by (simp add: max.assoc)
  qed
  finally show ?case by simp
qed

lemma seed_score:
  assumes "pattern \<in> set (map fst initial_patterns)"
  shows "dict_get (seed_of_life_layer insights) pattern 0
     = Max (insert 0 ((\<lambda>insight. calculate_pattern_strength insight pattern) ` set insights))"
proof -
  have s: "seed_of_life_layer insights =
     [(''growth_expansion'',
         fold (\<lambda>i a. max a (calculate_pattern_strength i ''growth_expansion'')) insights 0),
      (''stability_structure'',
         fold (\<lambda>i a. max a (calculate_pattern_strength i ''stability_structure'')) insights 0),
      (''connection_relationship'',
         fold (\<lambda>i a. max a (calculate_pattern_strength i ''connection_relationship'')) insights 0),
      (''innovation_creativity'',
         fold (\<lambda>i a. max a (calculate_pattern_strength i ''innovation_creativity'')) insights 0),
      (''efficiency_optimization'',
         fold (\<lambda>i a. max a (calculate_pattern_strength i ''efficiency_optimization'')) insights 0),
      (''risk_challenge'',
         fold (\<lambda>i a. max a (calculate_pattern_strength i ''risk_challenge'')) insights 0),
      (''opportunity_potential'',
         fold (\<lambda>i a. max a (calculate_pattern_strength i ''opportunity_potential'')) insights 0)]"
    unfolding seed_of_life_layer_def initial_patterns_def by (rule seed_fold_universe)
  from assms have "pattern = ''growth_expansion'' \<or> pattern = ''stability_structure''
      \<or> pattern = ''connection_relationship'' \<or> pattern = ''innovation_creativity''
      \<or> pattern = ''efficiency_optimization'' \<or> pattern = ''risk_challenge''
      \<or> pattern = ''opportunity_potential''"
    by (simp add: initial_patterns_def)
  then have "dict_get (seed_of_life_layer insights) pattern 0
     = fold (\<lambda>i a. max a (calculate_pattern_strength i pattern)) insights 0"
    unfolding s by (elim disjE) (simp_all add: dict_get_def)
  then show ?thesis by (simp only: fold_max_Max)
qed

lemma seed_keys: "map fst (seed_of_life_layer insights) = map fst initial_patterns"
  unfolding seed_of_life_layer_def initial_patterns_def seed_fold_universe by simp

lemma strength_ratio:
  assumes "pattern \<in> set (map fst initial_patterns)"
  shows "calculate_pattern_strength insight pattern
     = real (length (filter (str_contains (str_lower insight))
                (dict_get pattern_indicators pattern [])))
       / real (length (dict_get pattern_indicators pattern []))"
    and "0 \<le> calculate_pattern_strength insight pattern"
    and "calculate_pattern_strength insight pattern \<le> 1"
proof -
  let ?ind = "dict_get pattern_indicators pattern []"
  let ?m = "length (filter (str_contains (str_lower insight)) ?ind)"
  from assms have "pattern = ''growth_expansion'' \<or> pattern = ''stability_structure''
      \<or> pattern = ''connection_relationship'' \<or> pattern = ''innovation_creativity''
      \<or> pattern = ''efficiency_optimization'' \<or> pattern = ''risk_challenge''
      \<or> pattern = ''opportunity_potential''"
    by (simp add: initial_patterns_def)
  then have pos: "0 < length ?ind"
    by (elim disjE) (simp_all add: pattern_indicators_def dict_get_def)
  have le: "?m \<le> length ?ind" by (rule length_filter_le)
  have def: "calculate_pattern_strength insight pattern
      = min (real ?m / real (max (length ?ind) 1)) 1"
    by (simp add: calculate_pattern_strength_def Let_def)
  from pos have mx: "max (length ?ind) 1 = length ?ind" by arith
  from pos le have r: "real ?m / real (length ?ind) \<le> 1" by simp
  show "calculate_pattern_strength insight pattern = real ?m / real (length ?ind)"
    unfolding def mx using r by simp
  then show "0 \<le> calculate_pattern_strength insight pattern"
    and "calculate_pattern_strength insight pattern \<le> 1"
    using r by simp_all
qed


text \<open>
  Claim C7. The pattern scores are folded with the maximum. For every list of insights the
  result has the seven pattern keys in their fixed order, and for each of the seven patterns
  the score is the greatest, over the insights, of the number of indicators found in the
  lower-cased insight divided by the number of indicators of the pattern (and 0, the initial
  score, when there is no insight). Hence one more insight never lowers a score, and every
  score lies between 0 and 1.
\<close>

theorem pattern_scores_fold_with_max:
  assumes "pattern \<in> set (map fst initial_patterns)"
  shows "map fst (seed_of_life_layer insights) =
       [''growth_expansion'', ''stability_structure'', ''connection_relationship'',
        ''innovation_creativity'', ''efficiency_optimization'', ''risk_challenge'',
        ''opportunity_potential'']
     \<and> dict_get (seed_of_life_layer insights) pattern 0
         = Max (insert 0 ((\<lambda>insight.
               real (length (filter (str_contains (str_lower insight))
                       (dict_get pattern_indicators pattern [])))
               / real (length (dict_get pattern_indicators pattern []))) ` set insights))
     \<and> (insights \<noteq> [] \<longrightarrow>
          dict_get (seed_of_life_layer insights) pattern 0
           = Max ((\<lambda>insight.
               real (length (filter (str_contains (str_lower insight))
                       (dict_get pattern_indicators pattern [])))
               / real (length (dict_get pattern_indicators pattern []))) ` set insights))
     \<and> dict_get (seed_of_life_layer insights) pattern 0
         \<le> dict_get (seed_of_life_layer (insights @ [extra])) pattern 0
     \<and> 0 \<le> dict_get (seed_of_life_layer insights) pattern 0
     \<and> dict_get (seed_of_life_layer insights) pattern 0 \<le> 1"
proof -
  define f where "f = (\<lambda>insight. calculate_pattern_strength insight pattern)"
  define S where "S = f ` set insights"
  have ratio: "(\<lambda>insight.
               real (length (filter (str_contains (str_lower insight))
                       (dict_get pattern_indicators pattern [])))
               / real (length (dict_get pattern_indicators pattern []))) = f"
    unfolding f_def using strength_ratio(1) [OF assms] by auto
  have range: "\<And>v. v \<in> insert 0 S \<Longrightarrow> 0 \<le> v \<and> v \<le> 1"
    unfolding S_def f_def using strength_ratio(2,3) [OF assms] by auto
  have fin: "finite (insert 0 S)" unfolding S_def by simp
  have score: "dict_get (seed_of_life_layer insights) pattern 0 = Max (insert 0 S)"
    unfolding S_def f_def by (rule seed_score [OF assms])
  have score': "dict_get (seed_of_life_layer (insights @ [extra])) pattern 0
      = Max (insert 0 (insert (f extra) S))"
    unfolding seed_score [OF assms] S_def f_def by (simp add: insert_commute Un_commute)
  have keys: "map fst (seed_of_life_layer insights) =
       [''growth_expansion'', ''stability_structure'', ''connection_relationship'',
        ''innovation_creativity'', ''efficiency_optimization'', ''risk_challenge'',
        ''opportunity_potential'']"
    by (simp add: seed_keys initial_patterns_def)
  have mem: "Max (insert 0 S) \<in> insert 0 S"
    by (rule Max_in [OF fin]) simp
  have bounds: "0 \<le> Max (insert 0 S) \<and> Max (insert 0 S) \<le> 1"
    using range [OF mem] .
  have mono: "Max (insert 0 S) \<le> Max (insert 0 (insert (f extra) S))"
    by (rule Max_mono) (use fin in auto)
  have nonempty: "Max (insert 0 S) = Max S" if "insights \<noteq> []"
  proof -
    from that have ne: "S \<noteq> {}" unfolding S_def by simp
    have finS: "finite S" unfolding S_def by simp
    have "Max S \<in> S" by (rule Max_in [OF finS ne])
    then have "0 \<le> Max S" using range by blast
    then show ?thesis using Max_insert [OF finS ne, of 0] by simp
  qed
  show ?thesis
    unfolding ratio using keys score score' bounds mono nonempty
    unfolding S_def by simp
qed

theorem pattern_scores_fold_with_max_witness:
  "''risk_challenge'' \<in> set (map fst initial_patterns)
   \<and> dict_get (seed_of_life_layer
        [''Cost optimization should not compromise quality or future capabilities''])
        ''risk_challenge'' 0
      \<le> dict_get (seed_of_life_layer
        [''Cost optimization should not compromise quality or future capabilities'',
         ''Risk management is essential but should not stifle innovation''])
        ''risk_challenge'' 0
   \<and> dict_get (seed_of_life_layer
        [''Cost optimization should not compromise quality or future capabilities'',
         ''Risk management is essential but should not stifle innovation''])
        ''risk_challenge'' 0 = 1 / 5"
proof -
  have m: "''risk_challenge'' \<in> set (map fst initial_patterns)"
    by (simp add: initial_patterns_def)
  have v: "dict_get (seed_of_life_layer
        [''Cost optimization should not compromise quality or future capabilities'',
         ''Risk management is essential but should not stifle innovation''])
        ''risk_challenge'' 0 = 1 / 5"
    by (simp add: cost_risk_patterns dict_get_def)
  from pattern_scores_fold_with_max [OF m,
      of "[''Cost optimization should not compromise quality or future capabilities'']"
         "''Risk management is essential but should not stifle innovation''"]
  have "dict_get (seed_of_life_layer
        [''Cost optimization should not compromise quality or future capabilities''])
        ''risk_challenge'' 0
      \<le> dict_get (seed_of_life_layer
        ([''Cost optimization should not compromise quality or future capabilities'']
         @ [''Risk management is essential but should not stifle innovation'']))
        ''risk_challenge'' 0"
    by blast
  then have "dict_get (seed_of_life_layer
        [''Cost optimization should not compromise quality or future capabilities''])
        ''risk_challenge'' 0
      \<le> dict_get (seed_of_life_layer
        [''Cost optimization should not compromise quality or future capabilities'',
         ''Risk management is essential but should not stifle innovation''])
        ''risk_challenge'' 0"
    by (simp only: append_Cons append_Nil)
  with m v show ?thesis by blast
qed


section \<open>The pattern network\<close>

lemma map_of_row:
  "map_of (map (\<lambda>b. ((a, b), f a b)) ys) (x, y)
     = (if x = a \<and> y \<in> set ys then Some (f a y) else None)"
  by (induction ys) auto

lemma map_of_rows:
  "map_of (concat (map (\<lambda>a. map (\<lambda>b. ((a, b), f a b)) (h a)) xs)) (x, y)
     = (if x \<in> set xs \<and> y \<in> set (h x) then Some (f x y) else None)"
proof (induction xs)
  case Nil
  show ?case by simp
next
  case (Cons a xs)
  show ?case
    by (simp add: map_of_append map_add_def map_of_row Cons.IH split: option.split)
qed

lemma sum_list_all_zero:
  fixes xs :: "real list"
  assumes "\<forall>v \<in> set xs. v = 0"
  shows "sum_list xs = 0"
  using assms by (induction xs) simp_all

lemma connect_step_keys:
  assumes "distinct (map fst conns)"
  shows "distinct (map fst (connect_step patterns ia jb conns))"
  using assms by (simp add: connect_step_def distinct_update)

lemma fold_connect_step_keys:
  assumes "distinct (map fst conns)"
  shows "distinct (map fst (fold (connect_step patterns ia) js conns))"
  using assms by (induction js arbitrary: conns) (simp_all add: connect_step_keys)

lemma fold_rows_keys:
  assumes "distinct (map fst conns)"
  shows "distinct (map fst
           (fold (\<lambda>ia conns. fold (connect_step patterns ia) js conns) is conns))"
  using assms by (induction "is" arbitrary: conns) (simp_all add: fold_connect_step_keys)

lemma build_connections_keys: "distinct (map fst (build_connections patterns))"
  unfolding build_connections_def Let_def by (rule fold_rows_keys) simp

lemma zero_strength:
  "calculate_connection_strength a b initial_patterns = 0"
  by (simp add: calculate_connection_strength_def initial_patterns_def dict_get_def Let_def)

lemma connection_strength_formula:
  "calculate_connection_strength a b patterns =
     (if (a, b) \<in> set complementary_pairs \<or> (b, a) \<in> set complementary_pairs
      then 0.8 else 0.3) * (dict_get patterns a 0 + dict_get patterns b 0) / 2"
  by (simp add: calculate_connection_strength_def Let_def)

lemma universe_length:
  assumes "map fst patterns = map fst initial_patterns"
  shows "length (concat (map (\<lambda>a. map (\<lambda>b. ((a, b), f a b))
                          (filter (\<lambda>b. b \<noteq> a) (map fst patterns)))
                 (map fst patterns))) = 42"
  unfolding assms by (simp add: initial_patterns_def)


lemma flower_fields:
  "connections (flower_of_life_layer patterns) = build_connections patterns"
  "network_density (flower_of_life_layer patterns)
     = calculate_network_density (build_connections patterns)"
  "nodes (flower_of_life_layer patterns) = patterns"
  by (simp_all add: flower_of_life_layer_def Let_def)

lemma universe_lookup:
  assumes "build_connections patterns =
     concat (map (\<lambda>a. map (\<lambda>b. ((a, b), calculate_connection_strength a b patterns))
                          (filter (\<lambda>b. b \<noteq> a) (map fst patterns)))
                 (map fst patterns))"
  shows "map_of (build_connections patterns) (a, b)
      = (if a \<in> set (map fst patterns) \<and> b \<in> set (map fst patterns) \<and> a \<noteq> b
         then Some (calculate_connection_strength a b patterns) else None)"
  unfolding assms map_of_rows by auto

lemma universe_zero_density:
  assumes "build_connections initial_patterns =
     concat (map (\<lambda>a. map (\<lambda>b. ((a, b), calculate_connection_strength a b initial_patterns))
                          (filter (\<lambda>b. b \<noteq> a) (map fst initial_patterns)))
                 (map fst initial_patterns))"
  shows "calculate_network_density (build_connections initial_patterns) = 0"
proof -
  have "\<forall>v \<in> set (map snd (build_connections initial_patterns)). v = 0"
    unfolding assms zero_strength by auto
  then have "sum_list (map snd (build_connections initial_patterns)) = 0"
    by (rule sum_list_all_zero)
  then show ?thesis
    by (simp add: calculate_network_density_def)
qed


lemma network_core:
  assumes keys: "map fst patterns = map fst initial_patterns"
    and conns: "build_connections patterns =
       concat (map (\<lambda>a. map (\<lambda>b. ((a, b), calculate_connection_strength a b patterns))
                            (filter (\<lambda>b. b \<noteq> a) (map fst patterns)))
                   (map fst patterns))"
    and conns0: "build_connections initial_patterns =
       concat (map (\<lambda>a. map (\<lambda>b. ((a, b), calculate_connection_strength a b initial_patterns))
                            (filter (\<lambda>b. b \<noteq> a) (map fst initial_patterns)))
                   (map fst initial_patterns))"
  shows "length (connections (flower_of_life_layer patterns)) = 42
     \<and> distinct (map fst (connections (flower_of_life_layer patterns)))
     \<and> (\<forall>a \<in> set (map fst patterns). \<forall>b \<in> set (map fst patterns). a \<noteq> b \<longrightarrow>
           map_of (connections (flower_of_life_layer patterns)) (a, b)
             = Some ((if (a, b) \<in> set complementary_pairs \<or> (b, a) \<in> set complementary_pairs
                      then 0.8 else 0.3)
                     * (dict_get patterns a 0 + dict_get patterns b 0) / 2))
     \<and> (\<forall>a b. map_of (connections (flower_of_life_layer patterns)) (a, b) \<noteq> None \<longrightarrow>
           a \<in> set (map fst patterns) \<and> b \<in> set (map fst patterns) \<and> a \<noteq> b)
     \<and> network_density (flower_of_life_layer patterns)
         = sum_list (map snd (connections (flower_of_life_layer patterns))) / 42
     \<and> calculate_network_density [] = 0
     \<and> network_density (flower_of_life_layer initial_patterns) = 0"
proof -
  have len: "length (build_connections patterns) = 42"
    using universe_length [OF keys, of "\<lambda>a b. calculate_connection_strength a b patterns"]
    unfolding conns [symmetric] .
  have dist: "distinct (map fst (build_connections patterns))"
    by (rule build_connections_keys)
  have look: "\<forall>a \<in> set (map fst patterns). \<forall>b \<in> set (map fst patterns). a \<noteq> b \<longrightarrow>
           map_of (build_connections patterns) (a, b)
             = Some ((if (a, b) \<in> set complementary_pairs \<or> (b, a) \<in> set complementary_pairs
                      then 0.8 else 0.3)
                     * (dict_get patterns a 0 + dict_get patterns b 0) / 2)"
    unfolding universe_lookup [OF conns] connection_strength_formula by simp
  have only: "\<forall>a b. map_of (build_connections patterns) (a, b) \<noteq> None \<longrightarrow>
           a \<in> set (map fst patterns) \<and> b \<in> set (map fst patterns) \<and> a \<noteq> b"
    unfolding universe_lookup [OF conns] by simp
  have ne: "build_connections patterns \<noteq> []" using len by auto
  have dens: "calculate_network_density (build_connections patterns)
      = sum_list (map snd (build_connections patterns)) / 42"
    unfolding calculate_network_density_def using ne len by simp
  have empty: "calculate_network_density [] = 0"
    by (simp add: calculate_network_density_def)
  have zero: "calculate_network_density (build_connections initial_patterns) = 0"
    by (rule universe_zero_density [OF conns0])
  from len dist look only dens empty zero show ?thesis
    unfolding flower_fields by blast
qed

lemma build_connections_universe:
  assumes "map fst patterns = map fst initial_patterns"
  shows "build_connections patterns =
     concat (map (\<lambda>a. map (\<lambda>b. ((a, b), calculate_connection_strength a b patterns))
                          (filter (\<lambda>b. b \<noteq> a) (map fst patterns)))
                 (map fst patterns))"
  unfolding build_connections_def Let_def assms
  by (simp add: initial_patterns_def connect_step_def)


text \<open>
  Claim C6. For a pattern dictionary over the seven pattern names, the network holds one
  connection for every ordered pair of distinct patterns and no other, 42 in all; the
  strength of the pair \<open>(a, b)\<close> is the base strength times the mean of the two scores,
  with base 0.8 when the pair, in either order, is one of the three complementary pairs and
  0.3 otherwise. The density is the arithmetic mean of the 42 strengths; the density of an
  empty connection dictionary is 0; and when all seven scores are 0 the density is 0.
\<close>

theorem network_connections_and_density:
  assumes "map fst patterns = map fst initial_patterns"
  shows "length (connections (flower_of_life_layer patterns)) = 42
     \<and> distinct (map fst (connections (flower_of_life_layer patterns)))
     \<and> (\<forall>a \<in> set (map fst patterns). \<forall>b \<in> set (map fst patterns). a \<noteq> b \<longrightarrow>
           map_of (connections (flower_of_life_layer patterns)) (a, b)
             = Some ((if (a, b) \<in> set complementary_pairs \<or> (b, a) \<in> set complementary_pairs
                      then 0.8 else 0.3)
                     * (dict_get patterns a 0 + dict_get patterns b 0) / 2))
     \<and> (\<forall>a b. map_of (connections (flower_of_life_layer patterns)) (a, b) \<noteq> None \<longrightarrow>
           a \<in> set (map fst patterns) \<and> b \<in> set (map fst patterns) \<and> a \<noteq> b)
     \<and> network_density (flower_of_life_layer patterns)
         = sum_list (map snd (connections (flower_of_life_layer patterns))) / 42
     \<and> calculate_network_density [] = 0
     \<and> network_density (flower_of_life_layer initial_patterns) = 0"
  by (rule network_core [OF assms build_connections_universe [OF assms]
        build_connections_universe [OF refl]])



theorem network_connections_and_density_witness:
  "map fst [(''growth_expansion'', 0::real), (''stability_structure'', 0),
            (''connection_relationship'', 0), (''innovation_creativity'', 0),
            (''efficiency_optimization'', 0), (''risk_challenge'', 1 / 5),
            (''opportunity_potential'', 1 / 4)] = map fst initial_patterns
   \<and> length (connections (flower_of_life_layer
         [(''growth_expansion'', 0), (''stability_structure'', 0),
          (''connection_relationship'', 0), (''innovation_creativity'', 0),
          (''efficiency_optimization'', 0), (''risk_challenge'', 1 / 5),
          (''opportunity_potential'', 1 / 4)])) = 42
   \<and> map_of (connections (flower_of_life_layer
         [(''growth_expansion'', 0), (''stability_structure'', 0),
          (''connection_relationship'', 0), (''innovation_creativity'', 0),
          (''efficiency_optimization'', 0), (''risk_challenge'', 1 / 5),
          (''opportunity_potential'', 1 / 4)])) (''risk_challenge'', ''opportunity_potential'')
       = Some (9 / 50)
   \<and> map_of (connections (flower_of_life_layer
         [(''growth_expansion'', 0), (''stability_structure'', 0),
          (''connection_relationship'', 0), (''innovation_creativity'', 0),
          (''efficiency_optimization'', 0), (''risk_challenge'', 1 / 5),
          (''opportunity_potential'', 1 / 4)])) (''growth_expansion'', ''risk_challenge'')
       = Some (3 / 100)"
proof -
  let ?p = "[(''growth_expansion'', 0::real), (''stability_structure'', 0),
            (''connection_relationship'', 0), (''innovation_creativity'', 0),
            (''efficiency_optimization'', 0), (''risk_challenge'', 1 / 5),
            (''opportunity_potential'', 1 / 4)]"
  have k: "map fst ?p = map fst initial_patterns" by (simp add: initial_patterns_def)
  note t = network_connections_and_density [OF k]
  have m: "''risk_challenge'' \<in> set (map fst ?p)" "''opportunity_potential'' \<in> set (map fst ?p)"
    "''growth_expansion'' \<in> set (map fst ?p)" by simp_all
  have n: "''risk_challenge'' \<noteq> ''opportunity_potential''" "''growth_expansion'' \<noteq> ''risk_challenge''"
    by simp_all
  have v1: "(if (''risk_challenge'', ''opportunity_potential'') \<in> set complementary_pairs
                \<or> (''opportunity_potential'', ''risk_challenge'') \<in> set complementary_pairs
              then 0.8 else 0.3)
            * (dict_get ?p ''risk_challenge'' 0 + dict_get ?p ''opportunity_potential'' 0) / 2
          = (9 / 50 :: real)"
    by (simp add: complementary_pairs_def dict_get_def)
  have v2: "(if (''growth_expansion'', ''risk_challenge'') \<in> set complementary_pairs
                \<or> (''risk_challenge'', ''growth_expansion'') \<in> set complementary_pairs
              then 0.8 else 0.3)
            * (dict_get ?p ''growth_expansion'' 0 + dict_get ?p ''risk_challenge'' 0) / 2
          = (3 / 100 :: real)"
    by (simp add: complementary_pairs_def dict_get_def)
  have l: "length (connections (flower_of_life_layer ?p)) = 42"
    by (rule t [THEN conjunct1])
  have a: "map_of (connections (flower_of_life_layer ?p))
       (''risk_challenge'', ''opportunity_potential'') = Some (9 / 50)"
    unfolding v1 [symmetric]
    by (rule t [THEN conjunct2, THEN conjunct2, THEN conjunct1, rule_format, OF m(1) m(2) n(1)])
  have b: "map_of (connections (flower_of_life_layer ?p))
       (''growth_expansion'', ''risk_challenge'') = Some (3 / 100)"
    unfolding v2 [symmetric]
    by (rule t [THEN conjunct2, THEN conjunct2, THEN conjunct1, rule_format, OF m(3) m(1) n(2)])
  show ?thesis by (intro conjI k l a b)
qed

end
